theory Spec2Isabelle
  imports Complex_Main
begin

section \<open>StrokeEngine: a shallow embedding of \<^verbatim>\<open>src/StrokeEngine.cpp\<close>\<close>

text \<open>
  The engine object, the global pattern table and the global stepper handle \<^verbatim>\<open>servo\<close>
  become one record that every member function takes and returns. The stepper driver
  (FastAccelStepper) and the pattern provider (\<^verbatim>\<open>pattern.h\<close>) are external: the driver is
  modelled by the values it reports and by the ordered list of commands it has received,
  a pattern by the four parameters it stores and by a \<^verbatim>\<open>nextTarget\<close> function handed in
  as a parameter. The two background tasks are modelled by the functions they run; a
  task handle is a flag that says whether the handle is non-NULL. Serial output is left out.

  Conventions:
  \<^item> \<^verbatim>\<open>int\<close> is the 32-bit signed integer of the ESP32. Signed overflow, a floating
    value converted to \<^verbatim>\<open>int\<close> outside its range, a division by zero and an array index
    outside the table are undefined behaviour in C++; each is a \<open>fault\<close>, and a function
    that can reach one returns \<open>fault + result\<close> (\<open>Inl\<close> the fault).
  \<^item> \<^verbatim>\<open>float\<close>/\<^verbatim>\<open>double\<close> values are exact rationals: rounding error of the binary
    formats is outside the model. The concrete evaluations below do not depend on it:
    their values are exactly representable or far from every threshold they are compared
    with. Rationals have no infinity, NaN or negative zero. Where a quotient is
    converted to \<^verbatim>\<open>int\<close> (lines 513 and 525), a division by zero is a fault: IEEE 754
    gives an infinity or a NaN, and the conversion of either to \<^verbatim>\<open>int\<close> is undefined.
    Where a quotient is only compared (\<open>setSpeed\<close>), the division by zero has its IEEE
    value, and the model says what the comparison does with it.
  \<^item> The model describes the engine once \<^verbatim>\<open>begin\<close> has connected a stepper, so the global
    \<^verbatim>\<open>servo\<close> pointer is not NULL.
\<close>

subsection \<open>Undefined behaviour as a value\<close>

datatype fault = DivisionByZero | FloatToIntOutOfRange | SignedOverflow | IndexOutOfBounds

definition bindE :: "fault + 'a \<Rightarrow> ('a \<Rightarrow> fault + 'b) \<Rightarrow> fault + 'b" where
  "bindE m f = (case m of Inl x \<Rightarrow> Inl x | Inr v \<Rightarrow> f v)"

definition INT_MIN :: int where
  "INT_MIN = - 2147483648"

definition INT_MAX :: int where
  "INT_MAX = 2147483647"

text \<open>The result of an \<^verbatim>\<open>int\<close> operation whose mathematical value is \<open>v\<close>.\<close>

definition int32 :: "int \<Rightarrow> fault + int" where
  "int32 v = (if INT_MIN \<le> v \<and> v \<le> INT_MAX then Inr v else Inl SignedOverflow)"

text \<open>\<^verbatim>\<open>a / b\<close> on \<^verbatim>\<open>int\<close> operands with a non-zero constant divisor: the quotient is
  truncated towards zero.\<close>

definition cdiv :: "int \<Rightarrow> int \<Rightarrow> int" where
  "cdiv a b = (if (a < 0) = (b < 0) then \<bar>a\<bar> div \<bar>b\<bar> else - (\<bar>a\<bar> div \<bar>b\<bar>))"

text \<open>\<^verbatim>\<open>a / b\<close> on floating operands, where the quotient is converted to \<^verbatim>\<open>int\<close>
  next.\<close>

definition fdiv :: "rat \<Rightarrow> rat \<Rightarrow> fault + rat" where
  "fdiv a b = (if b = 0 then Inl DivisionByZero else Inr (a / b))"

text \<open>\<^verbatim>\<open>int(x)\<close>, and the implicit conversion of a floating value to an integer
  parameter: the fractional part is discarded.\<close>

definition trunc_toward_zero :: "rat \<Rightarrow> int" where
  "trunc_toward_zero x = (if 0 \<le> x then \<lfloor>x\<rfloor> else \<lceil>x\<rceil>)"

definition to_int :: "rat \<Rightarrow> fault + int" where
  "to_int x =
     (if INT_MIN \<le> trunc_toward_zero x \<and> trunc_toward_zero x \<le> INT_MAX
      then Inr (trunc_toward_zero x)
      else Inl FloatToIntOutOfRange)"

subsection \<open>Arduino macros and constants\<close>

text \<open>\<^verbatim>\<open>#define constrain(amt,low,high) ((amt)<(low)?(low):((amt)>(high)?(high):(amt)))\<close>\<close>

definition constrain :: "'a::linorder \<Rightarrow> 'a \<Rightarrow> 'a \<Rightarrow> 'a" where
  "constrain amt low high = (if amt < low then low else if amt > high then high else amt)"

text \<open>\<^verbatim>\<open>#define sq(x) ((x)*(x))\<close>, applied to an \<^verbatim>\<open>int\<close>.\<close>

definition sq :: "int \<Rightarrow> fault + int" where
  "sq x = int32 (x * x)"

definition LOW :: int where
  "LOW = 0"

definition HIGH :: int where
  "HIGH = 1"

subsection \<open>Data\<close>

datatype ServoState = SERVO_DISABLED | SERVO_READY | SERVO_ERROR | SERVO_RUNNING

text \<open>Modelled from the spec: the declarations of \<^verbatim>\<open>machineGeometry\<close>,
  \<^verbatim>\<open>motorProperties\<close> and \<^verbatim>\<open>motionParameter\<close> are in headers that are not among the
  sources. Physical quantities are floating values, pins and step quantities are
  \<^verbatim>\<open>int\<close>. The source writes \<^verbatim>\<open>stepPerMillimeter\<close> once (in \<^verbatim>\<open>begin\<close>) and
  \<^verbatim>\<open>stepsPerMillimeter\<close> everywhere else; both are the one field below.\<close>

record machineGeometry =
  physicalTravel :: rat
  keepoutBoundary :: rat

record motorProperties =
  stepsPerRevolution :: rat
  maxRPM :: rat
  maxAcceleration :: rat
  stepsPerMillimeter :: rat
  stepPin :: int
  directionPin :: int
  enablePin :: int
  enableActiveLow :: bool

record motionParameter =
  position :: int
  speed :: int
  acceleration :: int

text \<open>Modelled from the spec: the \<^verbatim>\<open>Pattern\<close> class is declared in \<^verbatim>\<open>pattern.h\<close>, which
  is not among the sources. A pattern keeps the last value each of its four setters
  received; \<^verbatim>\<open>nextTarget\<close> is a parameter of the functions that call it.\<close>

record pattern =
  p_timeOfStroke :: rat
  p_depth :: int
  p_stroke :: int
  p_sensation :: rat

definition Pattern_setTimeOfStroke :: "rat \<Rightarrow> pattern \<Rightarrow> pattern" where
  "Pattern_setTimeOfStroke v p = p\<lparr>p_timeOfStroke := v\<rparr>"

definition Pattern_setDepth :: "int \<Rightarrow> pattern \<Rightarrow> pattern" where
  "Pattern_setDepth v p = p\<lparr>p_depth := v\<rparr>"

definition Pattern_setStroke :: "int \<Rightarrow> pattern \<Rightarrow> pattern" where
  "Pattern_setStroke v p = p\<lparr>p_stroke := v\<rparr>"

definition Pattern_setSensation :: "rat \<Rightarrow> pattern \<Rightarrow> pattern" where
  "Pattern_setSensation v p = p\<lparr>p_sensation := v\<rparr>"

text \<open>The commands of the stepper driver that the engine calls, and the driver itself:
  what \<^verbatim>\<open>isRunning\<close>, \<^verbatim>\<open>getCurrentPosition\<close> and \<^verbatim>\<open>getCurrentSpeedInUs\<close> report, and
  the commands received so far, oldest first.\<close>

datatype servo_cmd =
    SetDirectionPin int int
  | SetEnablePin int bool
  | SetAutoEnable bool
  | EnableOutputs
  | DisableOutputs
  | SetSpeedInHz int
  | SetAcceleration int
  | ApplySpeedAcceleration
  | StopMove
  | MoveTo int
  | Move int
  | ForceStopAndNewPosition int
  | SetCurrentPosition int

record FastAccelStepper =
  isRunning :: bool
  currentPosition :: int
  currentSpeedInUs :: int
  issued :: "servo_cmd list"

text \<open>The members of \<^verbatim>\<open>StrokeEngine\<close> (without the leading underscore), followed by
  the globals \<^verbatim>\<open>patternTable\<close> and \<^verbatim>\<open>servo\<close>. \<open>callBackHomeing\<close> says whether the
  callback pointer is non-NULL and \<open>callBackCalls\<close> lists the arguments it was called
  with; \<open>inputPins\<close> lists the pins configured by \<^verbatim>\<open>pinMode(pin, INPUT)\<close>.\<close>

record engine =
  physics :: machineGeometry
  motor :: motorProperties
  travel :: rat
  minStep :: int
  maxStep :: int
  maxStepPerSecond :: int
  maxStepAcceleration :: int
  state :: ServoState
  isHomed :: bool
  patternIndex :: int
  index :: int
  depth :: int
  stroke :: int
  timeOfStroke :: rat
  sensation :: rat
  homeingPin :: int
  homeingActiveLow :: int
  homeingSpeed :: rat
  callBackHomeing :: bool
  callBackCalls :: "bool list"
  taskStrokingHandle :: bool
  taskHomingHandle :: bool
  inputPins :: "int list"
  patternTable :: "pattern list"
  servo :: FastAccelStepper

definition issue :: "servo_cmd list \<Rightarrow> engine \<Rightarrow> engine" where
  "issue cs e = e\<lparr>servo := (servo e)\<lparr>issued := issued (servo e) @ cs\<rparr>\<rparr>"

text \<open>\<^verbatim>\<open>patternTableSize\<close> is the number of entries of \<^verbatim>\<open>patternTable\<close>.\<close>

definition patternTableSize :: "engine \<Rightarrow> int" where
  "patternTableSize e = int (length (patternTable e))"

text \<open>\<^verbatim>\<open>patternIndex < patternTableSize\<close> with \<^verbatim>\<open>int patternIndex\<close> (line 108). The
  declaration of \<^verbatim>\<open>patternTableSize\<close> is in \<^verbatim>\<open>pattern.h\<close>, which is not among the sources,
  and its type decides what the comparison does with a negative index: if the type is
  \<^verbatim>\<open>unsigned int\<close>, C++ first converts the index to \<^verbatim>\<open>unsigned int\<close>, that is modulo
  \<open>2\<^sup>3\<^sup>2\<close>; if it is \<^verbatim>\<open>int\<close>, the two values are compared as they are. The first
  parameter says which of the two it is.\<close>

definition index_below_size :: "bool \<Rightarrow> int \<Rightarrow> int \<Rightarrow> bool" where
  "index_below_size sizeUnsigned i n =
     (if sizeUnsigned then i mod 4294967296 < n else i < n)"

text \<open>\<^verbatim>\<open>patternTable[_patternIndex]\<close>: the selected pattern, read and updated in place.\<close>

definition selectedPattern :: "engine \<Rightarrow> fault + pattern" where
  "selectedPattern e =
     (if 0 \<le> patternIndex e \<and> patternIndex e < patternTableSize e
      then Inr (patternTable e ! nat (patternIndex e))
      else Inl IndexOutOfBounds)"

definition onSelectedPattern :: "(pattern \<Rightarrow> pattern) \<Rightarrow> engine \<Rightarrow> fault + engine" where
  "onSelectedPattern f e =
     bindE (selectedPattern e) (\<lambda>p.
       Inr (e\<lparr>patternTable := (patternTable e)[nat (patternIndex e) := f p]\<rparr>))"

subsection \<open>The motion profile applier\<close>

definition applyMotionProfile :: "motionParameter \<Rightarrow> engine \<Rightarrow> engine" where
  "applyMotionProfile motion e =
     issue [SetSpeedInHz (constrain (speed motion) 1 (maxStepPerSecond e)),
            SetAcceleration (constrain (acceleration motion) 1 (maxStepAcceleration e)),
            MoveTo (constrain (position motion) (minStep e) (maxStep e))] e"

subsection \<open>Initialisation and setters\<close>

text \<open>\<^verbatim>\<open>begin\<close> (the name is a keyword here). The engine given is the object before the
  call; the members and globals that \<^verbatim>\<open>begin\<close> does not assign keep their values.\<close>

definition begin_engine ::
  "machineGeometry \<Rightarrow> motorProperties \<Rightarrow> engine \<Rightarrow> fault + engine" where
  "begin_engine physics' motor' e =
     (let travel' = physicalTravel physics' - 2 * keepoutBoundary physics' in
      bindE (to_int (1 / 2 + travel' * stepsPerMillimeter motor'))
        (\<lambda>maxStep'.
      bindE (to_int (1 / 2 + (maxRPM motor' * stepsPerRevolution motor') / 60))
        (\<lambda>maxStepPerSecond'.
      bindE (to_int (1 / 2 + maxAcceleration motor' * stepsPerRevolution motor'))
        (\<lambda>maxStepAcceleration'.
        Inr (issue [SetDirectionPin (directionPin motor') (directionPin motor'),
                    SetEnablePin (enablePin motor') (enableActiveLow motor'),
                    SetAutoEnable False,
                    DisableOutputs]
              (e\<lparr>physics := physics', motor := motor', travel := travel',
                 minStep := 0, maxStep := maxStep',
                 maxStepPerSecond := maxStepPerSecond',
                 maxStepAcceleration := maxStepAcceleration',
                 state := SERVO_DISABLED, isHomed := False,
                 patternIndex := 0, index := 0,
                 depth := maxStep',
                 stroke := cdiv 1 3 * maxStep',
                 timeOfStroke := 1,
                 sensation := 0\<rparr>))))))"

text \<open>Lines 50 to 53 of \<open>setSpeed\<close>: \<^verbatim>\<open>_timeOfStroke = 60.0 / speed\<close>, then
  \<^verbatim>\<open>_timeOfStroke = constrain(_timeOfStroke, 0.01, 120.0)\<close>. No conversion to \<^verbatim>\<open>int\<close>
  follows the division, so a speed of zero is no fault: the quotient is \<open>+\<infinity>\<close>, which
  is not below 0.01 and is above 120.0, and \<^verbatim>\<open>constrain\<close> returns 120.0. The two
  assignments are one update here, the infinity being no value of the model. (The zero of
  the model is the positive zero; a negative zero and a NaN are no values of it.)\<close>

definition strokeTime :: "rat \<Rightarrow> rat" where
  "strokeTime speed' =
     (if speed' = 0 then 120 else constrain (60 / speed') (1 / 100) 120)"

definition setSpeed :: "rat \<Rightarrow> engine \<Rightarrow> fault + engine" where
  "setSpeed speed' e =
     (let e1 = e\<lparr>timeOfStroke := strokeTime speed'\<rparr>
      in onSelectedPattern (Pattern_setTimeOfStroke (timeOfStroke e1)) e1)"

definition setDepth :: "rat \<Rightarrow> engine \<Rightarrow> fault + engine" where
  "setDepth depth' e =
     bindE (to_int (depth' * stepsPerMillimeter (motor e))) (\<lambda>d.
       let e1 = e\<lparr>depth := constrain d (minStep e) (maxStep e)\<rparr>
       in onSelectedPattern (Pattern_setDepth (depth e1)) e1)"

definition setStroke :: "rat \<Rightarrow> engine \<Rightarrow> fault + engine" where
  "setStroke stroke' e =
     bindE (to_int (stroke' * stepsPerMillimeter (motor e))) (\<lambda>s.
       let e1 = e\<lparr>stroke := constrain s (minStep e) (maxStep e)\<rparr>
       in onSelectedPattern (Pattern_setStroke (stroke e1)) e1)"

definition setSensation :: "rat \<Rightarrow> engine \<Rightarrow> fault + engine" where
  "setSensation sensation' e =
     (let e1 = e\<lparr>sensation := constrain sensation' (- 100) 100\<rparr>
      in onSelectedPattern (Pattern_setSensation (sensation e1)) e1)"

text \<open>\<open>setPattern\<close> takes the signedness of \<^verbatim>\<open>patternTableSize\<close> as its first
  parameter.\<close>

definition setPattern :: "bool \<Rightarrow> int \<Rightarrow> engine \<Rightarrow> fault + (bool \<times> engine)" where
  "setPattern sizeUnsigned patternIndex' e =
     (if index_below_size sizeUnsigned patternIndex' (patternTableSize e) then
        (let e1 = e\<lparr>patternIndex := patternIndex'\<rparr> in
         bindE (onSelectedPattern (Pattern_setTimeOfStroke (timeOfStroke e1)) e1) (\<lambda>e2.
         bindE (onSelectedPattern (Pattern_setDepth (depth e2)) e2) (\<lambda>e3.
         bindE (onSelectedPattern (Pattern_setStroke (stroke e3)) e3) (\<lambda>e4.
         bindE (onSelectedPattern (Pattern_setSensation (sensation e4)) e4) (\<lambda>e5.
           Inr (True, e5\<lparr>index := 0\<rparr>))))))
      else Inr (False, e))"

subsection \<open>Lifecycle operations\<close>

definition applyNewSettingsNow ::
  "(pattern \<Rightarrow> int \<Rightarrow> motionParameter) \<Rightarrow> engine \<Rightarrow> fault + (bool \<times> engine)" where
  "applyNewSettingsNow nextTarget e =
     (if state e = SERVO_RUNNING then
        bindE (selectedPattern e) (\<lambda>p.
          let currentMotion = nextTarget p (index e)
          in Inr (True, applyMotionProfile currentMotion e))
      else Inr (False, e))"

definition startMotion :: "engine \<Rightarrow> fault + (bool \<times> engine)" where
  "startMotion e =
     (if state e \<noteq> SERVO_READY then Inr (False, e)
      else
        (let e1 = (if isRunning (servo e)
                   then issue [SetAcceleration (maxStepAcceleration e),
                               ApplySpeedAcceleration, StopMove] e
                   else e);
             e2 = e1\<lparr>state := SERVO_RUNNING\<rparr>;
             e3 = e2\<lparr>index := - 1\<rparr>
         in
         bindE (onSelectedPattern (Pattern_setTimeOfStroke (timeOfStroke e3)) e3) (\<lambda>e4.
         bindE (onSelectedPattern (Pattern_setDepth (depth e4)) e4) (\<lambda>e5.
         bindE (onSelectedPattern (Pattern_setStroke (stroke e5)) e5) (\<lambda>e6.
         bindE (onSelectedPattern (Pattern_setSensation (sensation e6)) e6) (\<lambda>e7.
           Inr (True, e7\<lparr>taskStrokingHandle := True\<rparr>)))))))"

definition stopMotion :: "engine \<Rightarrow> engine" where
  "stopMotion e =
     (if state e = SERVO_RUNNING then
        (issue [SetAcceleration (maxStepAcceleration e), ApplySpeedAcceleration, StopMove] e)
          \<lparr>state := SERVO_READY\<rparr>
      else e)"

text \<open>\<^verbatim>\<open>enableAndHome(pin, activeLow, speed)\<close> creates the homing task, which then runs
  \<open>homingProcedure\<close> below; \<open>enableAndHome_callback\<close> is the overload that stores a
  callback first.\<close>

definition enableAndHome :: "int \<Rightarrow> int \<Rightarrow> rat \<Rightarrow> engine \<Rightarrow> engine" where
  "enableAndHome pin activeLow speed' e =
     (let e1 = e\<lparr>homeingPin := pin\<rparr>;
          e2 = e1\<lparr>inputPins := inputPins e1 @ [homeingPin e1]\<rparr>;
          e3 = e2\<lparr>homeingActiveLow := activeLow\<rparr>;
          e4 = e3\<lparr>homeingSpeed := speed' * stepsPerMillimeter (motor e3)\<rparr>;
          e5 = stopMotion e4;
          e6 = issue [EnableOutputs] e5
      in e6\<lparr>taskHomingHandle := True\<rparr>)"

definition enableAndHome_callback :: "int \<Rightarrow> int \<Rightarrow> rat \<Rightarrow> engine \<Rightarrow> engine" where
  "enableAndHome_callback pin activeLow speed' e =
     enableAndHome pin activeLow speed' (e\<lparr>callBackHomeing := True\<rparr>)"

definition thisIsHome :: "engine \<Rightarrow> fault + engine" where
  "thisIsHome e =
     (if state e \<noteq> SERVO_ERROR then
        bindE (to_int (- stepsPerMillimeter (motor e) * keepoutBoundary (physics e))) (\<lambda>p.
          Inr ((issue [EnableOutputs, SetCurrentPosition p] e)
                 \<lparr>isHomed := True, state := SERVO_READY\<rparr>))
      else Inr e)"

definition moveToMax :: "rat \<Rightarrow> engine \<Rightarrow> fault + (bool \<times> engine)" where
  "moveToMax speed' e =
     (if isHomed e then
        (let e1 = stopMotion e in
         bindE (to_int (speed' * stepsPerMillimeter (motor e1))) (\<lambda>s.
           let currentMotion = \<lparr>position = maxStep e1, speed = s,
                                 acceleration = cdiv (maxStepAcceleration e1) 10\<rparr>;
               e2 = applyMotionProfile currentMotion e1
           in Inr (True, e2\<lparr>state := SERVO_READY\<rparr>)))
      else Inr (False, e))"

definition moveToMin :: "rat \<Rightarrow> engine \<Rightarrow> fault + (bool \<times> engine)" where
  "moveToMin speed' e =
     (if isHomed e then
        (let e1 = stopMotion e in
         bindE (to_int (speed' * stepsPerMillimeter (motor e1))) (\<lambda>s.
           let currentMotion = \<lparr>position = minStep e1, speed = s,
                                 acceleration = cdiv (maxStepAcceleration e1) 10\<rparr>;
               e2 = applyMotionProfile currentMotion e1
           in Inr (True, e2\<lparr>state := SERVO_READY\<rparr>)))
      else Inr (False, e))"

definition getState :: "engine \<Rightarrow> ServoState" where
  "getState e = state e"

definition disable :: "engine \<Rightarrow> engine" where
  "disable e =
     (let e1 = e\<lparr>state := SERVO_DISABLED\<rparr>;
          e2 = e1\<lparr>isHomed := False\<rparr>;
          e3 = issue [DisableOutputs] e2
      in if taskHomingHandle e3 then e3\<lparr>taskHomingHandle := False\<rparr> else e3)"

definition safeState :: "engine \<Rightarrow> engine" where
  "safeState e = (disable e)\<lparr>state := SERVO_ERROR\<rparr>"

subsection \<open>The homing task\<close>

text \<open>
  The homing switch is read with \<^verbatim>\<open>digitalRead\<close>. A reading is a function from pin
  numbers to levels (\<open>LOW\<close> or \<open>HIGH\<close>); \<open>SERVO_ENDSTOP\<close>, a macro whose definition is
  not among the sources, is the first parameter. The polling loop runs while the driver
  reports a running move: its second parameter lists the readings of the loop's
  iterations, one per iteration in which \<^verbatim>\<open>servo->isRunning()\<close> was true; when the list
  is used up the move has ended. The wait for the back-off move (lines 421 to 424) reads
  nothing but \<^verbatim>\<open>isRunning\<close> and issues no command: the model passes over it, the
  back-off being a bounded move that ends.
\<close>

fun pollHomingSwitch :: "int \<Rightarrow> (int \<Rightarrow> int) list \<Rightarrow> engine \<Rightarrow> fault + engine" where
  "pollHomingSwitch SERVO_ENDSTOP [] e = Inr e"
| "pollHomingSwitch SERVO_ENDSTOP (digitalRead # later) e =
     (if digitalRead SERVO_ENDSTOP = LOW then
        bindE (to_int (- stepsPerMillimeter (motor e) * keepoutBoundary (physics e))) (\<lambda>p.
          let e1 = issue [ForceStopAndNewPosition p] e;
              e2 = e1\<lparr>isHomed := True\<rparr>
          in Inr (issue [MoveTo 0] e2))
      else pollHomingSwitch SERVO_ENDSTOP later e)"

definition homingProcedure ::
  "int \<Rightarrow> (int \<Rightarrow> int) \<Rightarrow> (int \<Rightarrow> int) list \<Rightarrow> engine \<Rightarrow> fault + engine" where
  "homingProcedure SERVO_ENDSTOP digitalRead polls e =
     bindE (to_int (homeingSpeed e)) (\<lambda>hz.
     let e1 = issue [SetSpeedInHz hz, SetAcceleration (cdiv (maxStepAcceleration e) 10)] e in
     bindE
       (if digitalRead SERVO_ENDSTOP = (if homeingActiveLow e1 = 0 then 1 else 0) then
          bindE (to_int (stepsPerMillimeter (motor e1) * 2 * keepoutBoundary (physics e1)))
            (\<lambda>off.
          bindE (to_int (- stepsPerMillimeter (motor e1) * 4 * keepoutBoundary (physics e1)))
            (\<lambda>back.
            Inr (issue [Move off, Move back] e1)))
        else
          bindE (to_int (- stepsPerMillimeter (motor e1) * physicalTravel (physics e1)))
            (\<lambda>full.
            Inr (issue [Move full] e1)))
       (\<lambda>e2.
     bindE (pollHomingSwitch SERVO_ENDSTOP polls e2) (\<lambda>e3.
     let e4 = (if \<not> isHomed e3
               then (issue [DisableOutputs] e3)\<lparr>state := SERVO_DISABLED\<rparr>
               else e3\<lparr>state := SERVO_READY\<rparr>);
         e5 = (if callBackHomeing e4
               then e4\<lparr>callBackCalls := callBackCalls e4 @ [isHomed e4]\<rparr>
               else e4)
     in Inr (e5\<lparr>taskHomingHandle := False\<rparr>))))"

subsection \<open>The stroking task\<close>

text \<open>Lines 503 to 510: increment the index and ask the selected pattern for the target
  at that index.\<close>

definition nextPatternTarget ::
  "(pattern \<Rightarrow> int \<Rightarrow> motionParameter) \<Rightarrow> engine
     \<Rightarrow> fault + (motionParameter \<times> engine)" where
  "nextPatternTarget nextTarget e =
     bindE (int32 (index e + 1)) (\<lambda>i.
       let e1 = e\<lparr>index := i\<rparr> in
       bindE (selectedPattern e1) (\<lambda>p. Inr (nextTarget p (index e1), e1)))"

text \<open>Line 513: the current speed in steps per second.\<close>

definition currentSpeed :: "FastAccelStepper \<Rightarrow> fault + int" where
  "currentSpeed s =
     bindE (fdiv 1000000 (of_int (currentSpeedInUs s))) (\<lambda>q. to_int (q + 1 / 2))"

text \<open>Lines 516 to 522: the distance to the boundary in the direction of motion.\<close>

definition distanceToCrash :: "engine \<Rightarrow> int \<Rightarrow> fault + int" where
  "distanceToCrash e currentSpeed' =
     (if currentSpeed' > 0 then int32 (maxStep e - currentPosition (servo e))
      else int32 (currentPosition (servo e) - minStep e))"

text \<open>Line 525: \<^verbatim>\<open>int(sq(currentSpeed) / (2.0 * distanceToCrash) + 0.5)\<close>.\<close>

definition minimumDeceleration :: "int \<Rightarrow> int \<Rightarrow> fault + int" where
  "minimumDeceleration currentSpeed' distanceToCrash' =
     bindE (sq currentSpeed') (\<lambda>s2.
     bindE (fdiv (of_int s2) (2 * of_int distanceToCrash')) (\<lambda>q.
       to_int (q + 1 / 2)))"

text \<open>Lines 513 to 528: the crash-avoidance override of the requested acceleration.\<close>

definition crashAvoidance :: "engine \<Rightarrow> motionParameter \<Rightarrow> fault + motionParameter" where
  "crashAvoidance e currentMotion =
     bindE (currentSpeed (servo e)) (\<lambda>cs.
     bindE (distanceToCrash e cs) (\<lambda>d.
     bindE (minimumDeceleration cs d) (\<lambda>md.
       Inr (currentMotion\<lparr>acceleration := max (acceleration currentMotion) md\<rparr>))))"

text \<open>One pass through the body of the task's loop, entered in state RUNNING
  (lines 500 to 538).\<close>

definition stroking_cycle ::
  "(pattern \<Rightarrow> int \<Rightarrow> motionParameter) \<Rightarrow> engine \<Rightarrow> fault + engine" where
  "stroking_cycle nextTarget e =
     (if isRunning (servo e) = False then
        bindE (nextPatternTarget nextTarget e) (\<lambda>(currentMotion, e1).
        bindE (crashAvoidance e1 currentMotion) (\<lambda>currentMotion'.
          Inr (applyMotionProfile currentMotion' e1)))
      else Inr e)"

text \<open>The loop itself. Between two passes the task sleeps and the driver moves on, so the
  loop takes the driver's reports (running, position, speed) at the start of each pass as
  a list; it ends when the state is no longer RUNNING (the task deletes itself) or when
  the list is used up.\<close>

fun stroking ::
  "(pattern \<Rightarrow> int \<Rightarrow> motionParameter) \<Rightarrow> (bool \<times> int \<times> int) list \<Rightarrow> engine
     \<Rightarrow> fault + engine" where
  "stroking nextTarget [] e = Inr e"
| "stroking nextTarget ((running, pos, us) # later) e =
     (if state e \<noteq> SERVO_RUNNING then Inr (e\<lparr>taskStrokingHandle := False\<rparr>)
      else
        bindE (stroking_cycle nextTarget
                 (e\<lparr>servo := (servo e)\<lparr>isRunning := running, currentPosition := pos,
                                        currentSpeedInUs := us\<rparr>\<rparr>))
              (stroking nextTarget later))"

subsection \<open>The spec's formula for the minimum deceleration\<close>

text \<open>Section 4.4 of the spec:
  \<^verbatim>\<open>minimumDeceleration = ceil(currentSpeed^2 / (2 * distanceToCrash))\<close>.\<close>

definition spec_minimumDeceleration :: "int \<Rightarrow> int \<Rightarrow> int" where
  "spec_minimumDeceleration currentSpeed' distanceToCrash' =
     \<lceil>(of_int currentSpeed')\<^sup>2 / (2 * of_int distanceToCrash' :: rat)\<rceil>"

subsection \<open>A concrete machine for evaluation\<close>

text \<open>A travel of 160 mm with a keepout of 5 mm, 50 steps per millimetre, 800 steps per
  revolution, 3000 RPM and a pattern table of one pattern. \<open>blank_engine\<close> is the engine
  before \<^verbatim>\<open>begin\<close>, \<open>demo_engine\<close> the engine after it, and \<open>stroking_engine pos us\<close>
  the engine in state RUNNING with an idle driver that reports position \<open>pos\<close> and a step
  period of \<open>us\<close> microseconds.\<close>

definition demo_physics :: machineGeometry where
  "demo_physics = \<lparr>physicalTravel = 160, keepoutBoundary = 5\<rparr>"

definition demo_motor :: motorProperties where
  "demo_motor = \<lparr>stepsPerRevolution = 800, maxRPM = 3000, maxAcceleration = 300,
     stepsPerMillimeter = 50, stepPin = 1, directionPin = 2, enablePin = 3,
     enableActiveLow = True\<rparr>"

definition demo_pattern :: pattern where
  "demo_pattern = \<lparr>p_timeOfStroke = 0, p_depth = 0, p_stroke = 0, p_sensation = 0\<rparr>"

definition demo_nextTarget :: "pattern \<Rightarrow> int \<Rightarrow> motionParameter" where
  "demo_nextTarget p i =
     \<lparr>position = (if even i then p_depth p else p_depth p - p_stroke p),
      speed = 1000, acceleration = 2000\<rparr>"

definition blank_engine :: engine where
  "blank_engine = \<lparr>physics = \<lparr>physicalTravel = 0, keepoutBoundary = 0\<rparr>,
     motor = \<lparr>stepsPerRevolution = 0, maxRPM = 0, maxAcceleration = 0,
       stepsPerMillimeter = 0, stepPin = 0, directionPin = 0, enablePin = 0,
       enableActiveLow = False\<rparr>,
     travel = 0, minStep = 0, maxStep = 0, maxStepPerSecond = 0, maxStepAcceleration = 0,
     state = SERVO_DISABLED, isHomed = False, patternIndex = 0, index = 0,
     depth = 0, stroke = 0, timeOfStroke = 0, sensation = 0,
     homeingPin = 0, homeingActiveLow = 0, homeingSpeed = 0,
     callBackHomeing = False, callBackCalls = [],
     taskStrokingHandle = False, taskHomingHandle = False, inputPins = [],
     patternTable = [demo_pattern],
     servo = \<lparr>isRunning = False, currentPosition = 0, currentSpeedInUs = 0, issued = []\<rparr>\<rparr>"

definition demo_engine :: engine where
  "demo_engine = \<lparr>physics = demo_physics, motor = demo_motor,
     travel = 150, minStep = 0, maxStep = 7500, maxStepPerSecond = 40000,
     maxStepAcceleration = 240000,
     state = SERVO_DISABLED, isHomed = False, patternIndex = 0, index = 0,
     depth = 7500, stroke = 0, timeOfStroke = 1, sensation = 0,
     homeingPin = 0, homeingActiveLow = 0, homeingSpeed = 0,
     callBackHomeing = False, callBackCalls = [],
     taskStrokingHandle = False, taskHomingHandle = False, inputPins = [],
     patternTable = [demo_pattern],
     servo = \<lparr>isRunning = False, currentPosition = 0, currentSpeedInUs = 0,
       issued = [SetDirectionPin 2 2, SetEnablePin 3 True, SetAutoEnable False,
                 DisableOutputs]\<rparr>\<rparr>"

definition stroking_engine :: "int \<Rightarrow> int \<Rightarrow> engine" where
  "stroking_engine pos us =
     demo_engine\<lparr>state := SERVO_RUNNING, isHomed := True, index := - 1,
       servo := \<lparr>isRunning = False, currentPosition = pos, currentSpeedInUs = us,
                 issued = []\<rparr>\<rparr>"

text \<open>\<open>ready_engine\<close> is the homed machine in state READY after the user has set a
  depth of 5000 steps, a stroke of 2000 steps, two seconds per stroke and a sensation
  of 25, while the pattern still holds older values.\<close>

definition ready_engine :: engine where
  "ready_engine =
     demo_engine\<lparr>state := SERVO_READY, isHomed := True, index := 7,
       depth := 5000, stroke := 2000, timeOfStroke := 2, sensation := 25\<rparr>"

text \<open>What the homing task leaves behind: whether the engine is homed, its state, and
  the commands the driver has received.\<close>

definition observe :: "engine \<Rightarrow> bool \<times> ServoState \<times> servo_cmd list" where
  "observe e = (isHomed e, state e, issued (servo e))"

section \<open>Auxiliary facts\<close>

lemma floor_rat_numeral [simp]:
  "\<lfloor>(numeral a / numeral b :: rat)\<rfloor> = numeral a div numeral b"
  by (metis floor_divide_of_int_eq of_int_numeral)

lemma floor_rat_neg_numeral [simp]:
  "\<lfloor>(- (numeral a / numeral b) :: rat)\<rfloor> = - numeral a div numeral b"
  by (metis floor_divide_of_int_eq of_int_numeral of_int_minus minus_divide_left)

lemma ceiling_rat_numeral [simp]:
  "\<lceil>(numeral a / numeral b :: rat)\<rceil> = - (- numeral a div numeral b)"
  by (simp add: ceiling_def)

lemma ceiling_rat_neg_numeral [simp]:
  "\<lceil>(- (numeral a / numeral b) :: rat)\<rceil> = - (numeral a div numeral b)"
  by (simp add: ceiling_def)

lemmas num_defs =
  bindE_def INT_MIN_def INT_MAX_def int32_def fdiv_def trunc_toward_zero_def to_int_def
  sq_def cdiv_def constrain_def strokeTime_def LOW_def HIGH_def

lemmas demo_defs =
  demo_physics_def demo_motor_def demo_pattern_def demo_nextTarget_def blank_engine_def
  demo_engine_def stroking_engine_def ready_engine_def

lemmas pattern_defs =
  patternTableSize_def selectedPattern_def onSelectedPattern_def Pattern_setTimeOfStroke_def
  Pattern_setDepth_def Pattern_setStroke_def Pattern_setSensation_def

lemmas stroking_defs =
  stroking_cycle_def nextPatternTarget_def crashAvoidance_def currentSpeed_def
  distanceToCrash_def minimumDeceleration_def applyMotionProfile_def issue_def

lemma begin_demo_engine: "begin_engine demo_physics demo_motor blank_engine = Inr demo_engine"
  by (simp add: begin_engine_def issue_def num_defs demo_defs)

lemma constrain_range: "lo \<le> hi \<Longrightarrow> lo \<le> constrain x lo hi \<and> constrain x lo hi \<le> hi"
  by (auto simp: constrain_def)

lemma constrain_max_min: "lo \<le> hi \<Longrightarrow> constrain x lo hi = max lo (min hi x)"
  by (auto simp: constrain_def)

text \<open>\<^verbatim>\<open>int(x)\<close> of a value within the range of \<^verbatim>\<open>int\<close> is within that range.\<close>

lemma trunc_toward_zero_range:
  assumes "of_int INT_MIN \<le> x" "x \<le> of_int INT_MAX"
  shows "INT_MIN \<le> trunc_toward_zero x \<and> trunc_toward_zero x \<le> INT_MAX"
proof (cases "0 \<le> x")
  case True
  then have "0 \<le> \<lfloor>x\<rfloor>" by simp
  moreover have "\<lfloor>x\<rfloor> \<le> INT_MAX" using assms(2) by (simp add: floor_le_iff)
  ultimately show ?thesis using True by (simp add: trunc_toward_zero_def INT_MIN_def)
next
  case False
  then have "\<lceil>x\<rceil> \<le> 0" by (simp add: ceiling_le_iff)
  moreover have "INT_MIN \<le> \<lceil>x\<rceil>" using assms(1) by (simp add: le_ceiling_iff)
  ultimately show ?thesis using False by (simp add: trunc_toward_zero_def INT_MAX_def)
qed

text \<open>For a distance other than zero and a speed whose square fits an \<^verbatim>\<open>int\<close>, line 525
  has a defined result: the quotient plus one half, truncated.\<close>

lemma minimumDeceleration_defined:
  assumes "d \<noteq> 0" "s * s \<le> INT_MAX"
  shows "minimumDeceleration s d =
           Inr (trunc_toward_zero ((of_int (s * s) :: rat) / (2 * of_int d) + 1 / 2))"
proof -
  let ?q = "(of_int (s * s) :: rat) / (2 * of_int d)"
  have s2: "(of_int (s * s) :: rat) \<le> of_int INT_MAX"
    using assms(2) by (simp only: of_int_le_iff)
  have "1 \<le> \<bar>d\<bar>" using assms(1) by simp
  then have "(of_int 1 :: rat) \<le> of_int \<bar>d\<bar>" by (simp only: of_int_le_iff)
  then have d1: "(1 :: rat) \<le> \<bar>of_int d\<bar>" by simp
  have "\<bar>?q\<bar> = of_int (s * s) / (2 * \<bar>of_int d\<bar>)"
    by (simp add: abs_mult)
  also have "\<dots> \<le> of_int (s * s) / 2"
  proof -
    have "(of_int (s * s) :: rat) * 1 \<le> of_int (s * s) * \<bar>of_int d\<bar>"
      using d1 by (intro mult_left_mono) simp_all
    then show ?thesis using d1 by (simp add: field_simps)
  qed
  finally have aq: "\<bar>?q\<bar> \<le> of_int INT_MAX / 2" using s2 by simp
  define q where "q = ?q"
  have "\<bar>q\<bar> \<le> 2147483647 / 2"
    using aq by (simp only: q_def INT_MAX_def of_int_numeral)
  then have "of_int INT_MIN \<le> q + 1 / 2" "q + 1 / 2 \<le> of_int INT_MAX"
    by (simp_all add: INT_MIN_def INT_MAX_def abs_le_iff)
  then have rng: "INT_MIN \<le> trunc_toward_zero (?q + 1 / 2) \<and>
                  trunc_toward_zero (?q + 1 / 2) \<le> INT_MAX"
    unfolding q_def by (rule trunc_toward_zero_range)
  have d0: "(2 * of_int d :: rat) \<noteq> 0" using assms(1) by simp
  have "INT_MIN \<le> s * s"
    by (rule order_trans [of _ 0]) (simp_all add: INT_MIN_def)
  then have sq_ok: "sq s = Inr (s * s)"
    using assms(2) by (simp add: sq_def int32_def)
  show ?thesis
    unfolding minimumDeceleration_def sq_ok
    using rng d0 by (simp add: bindE_def fdiv_def to_int_def)
qed

text \<open>For a positive distance that is the quotient rounded to the nearest integer, halves
  upwards.\<close>

lemma minimumDeceleration_pos:
  assumes "0 < d" "s * s \<le> INT_MAX"
  shows "minimumDeceleration s d =
           Inr \<lfloor>(of_int (s * s) :: rat) / (2 * of_int d) + 1 / 2\<rfloor>"
proof -
  have "0 \<le> (of_int (s * s) :: rat) / (2 * of_int d) + 1 / 2" using assms(1) by simp
  then show ?thesis
    using minimumDeceleration_defined [of d s] assms by (simp add: trunc_toward_zero_def)
qed

text \<open>The same value in integer arithmetic.\<close>

lemma round_half_up_div:
  assumes "0 < d"
  shows "\<lfloor>(of_int (s * s) :: rat) / (2 * of_int d) + 1 / 2\<rfloor> = (s * s + d) div (2 * d)"
proof -
  have "(of_int (s * s) :: rat) / (2 * of_int d) + 1 / 2 = of_int (s * s + d) / of_int (2 * d)"
    using assms by (simp add: field_simps)
  then show ?thesis by (simp only: floor_divide_of_int_eq)
qed

lemma nextPatternTarget_Inr:
  assumes "selectedPattern e = Inr p" "int32 (index e + 1) = Inr i"
  shows "nextPatternTarget nextTarget e = Inr (nextTarget p i, e\<lparr>index := i\<rparr>)"
  using assms
  by (auto simp: nextPatternTarget_def bindE_def selectedPattern_def patternTableSize_def
      Let_def split: if_splits)

lemma onSelectedPattern_valid:
  "0 \<le> patternIndex e \<Longrightarrow> patternIndex e < patternTableSize e \<Longrightarrow>
   onSelectedPattern f e =
     Inr (e\<lparr>patternTable :=
            (patternTable e)[nat (patternIndex e) := f (patternTable e ! nat (patternIndex e))]\<rparr>)"
  by (simp add: onSelectedPattern_def selectedPattern_def bindE_def)

lemma onSelectedPattern_Inr:
  "onSelectedPattern f e = Inr e' \<Longrightarrow>
     0 \<le> patternIndex e \<and> patternIndex e < patternTableSize e \<and>
     e' = e\<lparr>patternTable :=
            (patternTable e)[nat (patternIndex e) := f (patternTable e ! nat (patternIndex e))]\<rparr>"
  by (auto simp: onSelectedPattern_def selectedPattern_def bindE_def split: if_splits)

section \<open>The claims\<close>

subsection \<open>C1: a distance of zero to the boundary\<close>

text \<open>Whatever the speed, line 525 has no defined result when \<open>distanceToCrash\<close> is 0:
  the divisor \<^verbatim>\<open>2.0 * distanceToCrash\<close> is zero and nothing guards the division.\<close>

lemma minimumDeceleration_zero_distance: "minimumDeceleration s 0 \<noteq> Inr md"
  by (simp add: minimumDeceleration_def num_defs)

text \<open>Claim C1 says that with \<open>distanceToCrash = 0\<close> the computation of
  \<open>minimumDeceleration\<close> does not divide by zero and yields a defined maximum
  deceleration. The code does divide by zero. With the driver idle at position
  \<open>maxStep = 7500\<close> and reporting a step period of 1000 microseconds, the current speed is
  1000 steps per second, the distance to the boundary is 0, the computation of the
  minimum deceleration divides by zero, and the pass of the stroking loop ends in that
  fault. The same happens at the other boundary, with the driver at position
  \<open>minStep = 0\<close> and a negative speed. No speed gives a defined result at distance 0.\<close>

theorem stroking_at_boundary_divides_by_zero:
  "currentSpeed (servo (stroking_engine 7500 1000)) = Inr 1000 \<and>
   distanceToCrash (stroking_engine 7500 1000) 1000 = Inr 0 \<and>
   minimumDeceleration 1000 0 = Inl DivisionByZero \<and>
   stroking_cycle demo_nextTarget (stroking_engine 7500 1000) = Inl DivisionByZero \<and>
   currentSpeed (servo (stroking_engine 0 (- 1000))) = Inr (- 999) \<and>
   distanceToCrash (stroking_engine 0 (- 1000)) (- 999) = Inr 0 \<and>
   stroking_cycle demo_nextTarget (stroking_engine 0 (- 1000)) = Inl DivisionByZero \<and>
   (\<forall>s md. minimumDeceleration s 0 \<noteq> Inr md)"
  by (simp add: stroking_defs pattern_defs num_defs demo_defs)

subsection \<open>C2: the crash-avoidance override\<close>

text \<open>Claim C2 says that each stroking cycle computes
  \<open>minimumDeceleration = ceil(currentSpeed\<^sup>2 / (2 * distanceToCrash))\<close>, overrides the
  requested acceleration with the maximum of the two, and that for a speed of 1000 and a
  distance of 10 the deceleration is 50000 and the acceleration applied to the driver is
  at least 50000. Two parts fail on the code. Line 525 rounds to the nearest integer
  (\<^verbatim>\<open>int(x + 0.5)\<close>) instead of upwards: at speed 1000 and distance 128 the quotient is
  3906.25, the code computes 3906 where the ceiling is 3907, and 3906 is what the driver
  receives. And the applier clamps after the override: with
  \<open>maxStepAcceleration = 30000\<close> the driver receives 30000 at speed 1000 and distance 10,
  which is less than 50000.\<close>

theorem stroking_rounds_to_nearest_and_clamps_counterexample:
  "minimumDeceleration 1000 128 = Inr 3906 \<and>
   spec_minimumDeceleration 1000 128 = 3907 \<and>
   stroking_cycle demo_nextTarget (stroking_engine 7372 1000) =
     Inr (issue [SetSpeedInHz 1000, SetAcceleration 3906, MoveTo 0]
            ((stroking_engine 7372 1000)\<lparr>index := 0\<rparr>)) \<and>
   distanceToCrash ((stroking_engine 7490 1000)\<lparr>maxStepAcceleration := 30000\<rparr>) 1000 =
     Inr 10 \<and>
   stroking_cycle demo_nextTarget
       ((stroking_engine 7490 1000)\<lparr>maxStepAcceleration := 30000\<rparr>) =
     Inr (issue [SetSpeedInHz 1000, SetAcceleration 30000, MoveTo 0]
            ((stroking_engine 7490 1000)\<lparr>maxStepAcceleration := 30000, index := 0\<rparr>))"
  by (simp add: stroking_defs spec_minimumDeceleration_def pattern_defs num_defs demo_defs)

text \<open>Claim C2, amended. In a pass of the stroking loop that finds the driver idle, with a
  distance \<open>d \<noteq> 0\<close> to the boundary and a current speed \<open>cs\<close> whose square fits an
  \<^verbatim>\<open>int\<close>, the minimum deceleration is \<^verbatim>\<open>int(cs\<^sup>2 / (2.0 * d) + 0.5)\<close>, which for
  \<open>d > 0\<close> is the quotient rounded to the nearest integer (halves upwards); the
  acceleration of the requested target is replaced by the maximum of itself and that
  value; and the driver receives this maximum constrained to \<open>[1, maxStepAcceleration]\<close>.
  For \<open>cs = 1000\<close> and \<open>d = 10\<close> the minimum deceleration is 50000, and the driver
  receives at least 50000 whenever \<open>maxStepAcceleration \<ge> 50000\<close>.\<close>

theorem stroking_cycle_crash_avoidance:
  assumes idle: "isRunning (servo e) = False"
    and pat: "selectedPattern e = Inr p"
    and idx: "int32 (index e + 1) = Inr i"
    and spd: "currentSpeed (servo e) = Inr cs"
    and dist: "distanceToCrash e cs = Inr d"
    and dnz: "d \<noteq> 0"
    and sqr: "cs * cs \<le> INT_MAX"
    and md: "md = trunc_toward_zero ((of_int (cs * cs) :: rat) / (2 * of_int d) + 1 / 2)"
    and req: "requested = nextTarget p i"
  shows "minimumDeceleration cs d = Inr md \<and>
         (0 < d \<longrightarrow> md = \<lfloor>(of_int (cs * cs) :: rat) / (2 * of_int d) + 1 / 2\<rfloor>) \<and>
         stroking_cycle nextTarget e =
           Inr (applyMotionProfile
                  (requested\<lparr>acceleration := max (acceleration requested) md\<rparr>)
                  (e\<lparr>index := i\<rparr>)) \<and>
         issued (servo (applyMotionProfile
                  (requested\<lparr>acceleration := max (acceleration requested) md\<rparr>)
                  (e\<lparr>index := i\<rparr>))) =
           issued (servo e) @
             [SetSpeedInHz (constrain (speed requested) 1 (maxStepPerSecond e)),
              SetAcceleration
                (constrain (max (acceleration requested) md) 1 (maxStepAcceleration e)),
              MoveTo (constrain (position requested) (minStep e) (maxStep e))] \<and>
         (cs = 1000 \<and> d = 10 \<longrightarrow>
            md = 50000 \<and>
            (50000 \<le> maxStepAcceleration e \<longrightarrow>
               50000 \<le> constrain (max (acceleration requested) md) 1
                          (maxStepAcceleration e)))"
proof -
  have m: "minimumDeceleration cs d = Inr md"
    using minimumDeceleration_defined [OF dnz sqr] md by simp
  have rnd: "0 < d \<longrightarrow> md = \<lfloor>(of_int (cs * cs) :: rat) / (2 * of_int d) + 1 / 2\<rfloor>"
    using minimumDeceleration_pos [OF _ sqr, of d] m by auto
  have dist': "distanceToCrash (e\<lparr>index := i\<rparr>) cs = Inr d"
    using dist by (simp add: distanceToCrash_def split: if_splits)
  have crash: "crashAvoidance (e\<lparr>index := i\<rparr>) requested =
      Inr (requested\<lparr>acceleration := max (acceleration requested) md\<rparr>)"
    by (simp add: crashAvoidance_def spd dist' m bindE_def)
  have cyc: "stroking_cycle nextTarget e =
      Inr (applyMotionProfile (requested\<lparr>acceleration := max (acceleration requested) md\<rparr>)
             (e\<lparr>index := i\<rparr>))"
    by (simp add: stroking_cycle_def idle nextPatternTarget_Inr [OF pat idx] req [symmetric]
        crash bindE_def)
  have iss: "issued (servo (applyMotionProfile
                  (requested\<lparr>acceleration := max (acceleration requested) md\<rparr>)
                  (e\<lparr>index := i\<rparr>))) =
           issued (servo e) @
             [SetSpeedInHz (constrain (speed requested) 1 (maxStepPerSecond e)),
              SetAcceleration
                (constrain (max (acceleration requested) md) 1 (maxStepAcceleration e)),
              MoveTo (constrain (position requested) (minStep e) (maxStep e))]"
    by (simp add: applyMotionProfile_def issue_def)
  have ex: "cs = 1000 \<and> d = 10 \<longrightarrow>
            md = 50000 \<and>
            (50000 \<le> maxStepAcceleration e \<longrightarrow>
               50000 \<le> constrain (max (acceleration requested) md) 1
                          (maxStepAcceleration e))"
  proof (intro impI conjI)
    assume a: "cs = 1000 \<and> d = 10"
    then show v: "md = 50000" using md by (simp add: trunc_toward_zero_def)
    assume "50000 \<le> maxStepAcceleration e"
    then show "50000 \<le> constrain (max (acceleration requested) md) 1 (maxStepAcceleration e)"
      using v by (simp add: constrain_def)
  qed
  from m rnd cyc iss ex show ?thesis by blast
qed

text \<open>The amended claim at the spec's own numbers: the driver is idle at position 7490 of
  7500 and reports a step period of 1000 microseconds, the pattern asks for an
  acceleration of 2000, and the driver receives 50000.\<close>

theorem stroking_cycle_crash_avoidance_witness:
  "isRunning (servo (stroking_engine 7490 1000)) = False \<and>
   selectedPattern (stroking_engine 7490 1000) = Inr demo_pattern \<and>
   int32 (index (stroking_engine 7490 1000) + 1) = Inr 0 \<and>
   currentSpeed (servo (stroking_engine 7490 1000)) = Inr 1000 \<and>
   distanceToCrash (stroking_engine 7490 1000) 1000 = Inr 10 \<and>
   acceleration (demo_nextTarget demo_pattern 0) = 2000 \<and>
   minimumDeceleration 1000 10 = Inr 50000 \<and>
   stroking_cycle demo_nextTarget (stroking_engine 7490 1000) =
     Inr (issue [SetSpeedInHz 1000, SetAcceleration 50000, MoveTo 0]
            ((stroking_engine 7490 1000)\<lparr>index := 0\<rparr>))"
proof -
  let ?e = "stroking_engine 7490 1000"
  have h1: "isRunning (servo ?e) = False" by (simp add: demo_defs)
  have h2: "selectedPattern ?e = Inr demo_pattern" by (simp add: pattern_defs demo_defs)
  have h3: "int32 (index ?e + 1) = Inr 0" by (simp add: num_defs demo_defs)
  have h4: "currentSpeed (servo ?e) = Inr 1000"
    by (simp add: currentSpeed_def num_defs demo_defs)
  have h5: "distanceToCrash ?e 1000 = Inr 10"
    by (simp add: distanceToCrash_def num_defs demo_defs)
  have h6: "(10::int) \<noteq> 0" by simp
  have h7: "(1000::int) * 1000 \<le> INT_MAX" by (simp add: INT_MAX_def)
  have h8: "(50000::int) =
              trunc_toward_zero ((of_int (1000 * 1000) :: rat) / (2 * of_int 10) + 1 / 2)"
    by (simp add: trunc_toward_zero_def)
  have h9: "demo_nextTarget demo_pattern 0 = demo_nextTarget demo_pattern 0" by simp
  have a: "acceleration (demo_nextTarget demo_pattern 0) = 2000" by (simp add: demo_defs)
  have ap: "applyMotionProfile
             ((demo_nextTarget demo_pattern 0)\<lparr>acceleration :=
                 max (acceleration (demo_nextTarget demo_pattern 0)) 50000\<rparr>)
             (?e\<lparr>index := 0\<rparr>) =
            issue [SetSpeedInHz 1000, SetAcceleration 50000, MoveTo 0] (?e\<lparr>index := 0\<rparr>)"
    by (simp add: applyMotionProfile_def issue_def constrain_def demo_defs)
  from stroking_cycle_crash_avoidance
         [where nextTarget = demo_nextTarget and requested = "demo_nextTarget demo_pattern 0",
          OF h1 h2 h3 h4 h5 h6 h7 h8 h9]
  have "minimumDeceleration 1000 10 = Inr 50000"
    and "stroking_cycle demo_nextTarget ?e =
           Inr (applyMotionProfile
                  ((demo_nextTarget demo_pattern 0)\<lparr>acceleration :=
                      max (acceleration (demo_nextTarget demo_pattern 0)) 50000\<rparr>)
                  (?e\<lparr>index := 0\<rparr>))"
    by blast+
  with h1 h2 h3 h4 h5 a ap show ?thesis by simp
qed

subsection \<open>C3: the range check of \<open>setPattern\<close>\<close>

text \<open>Claim C3 says that \<open>setPattern i\<close> returns false and leaves the engine unchanged for
  every \<open>i < 0\<close> or \<open>i \<ge> patternCount\<close>, and returns true for every \<open>i\<close> in range.
  Line 108 tests \<^verbatim>\<open>patternIndex < patternTableSize\<close> and nothing else. Two parts of the
  claim hold whatever the type of \<^verbatim>\<open>patternTableSize\<close> is: an index at or above the size
  of the table is refused and nothing changes; an index inside the table is accepted,
  stored, and all four parameters are written into the newly selected pattern.\<close>

lemma index_below_size_nonneg:
  "0 \<le> i \<Longrightarrow> i \<le> INT_MAX \<Longrightarrow> index_below_size u i n = (i < n)"
  by (simp add: index_below_size_def INT_MAX_def)

lemma setPattern_too_large:
  assumes "patternTableSize e \<le> i" "i \<le> INT_MAX"
  shows "setPattern u i e = Inr (False, e)"
proof -
  have "0 \<le> i" using assms(1) by (simp add: patternTableSize_def)
  then have "\<not> index_below_size u i (patternTableSize e)"
    using assms by (simp add: index_below_size_nonneg)
  then show ?thesis by (simp add: setPattern_def)
qed

lemma setPattern_in_range:
  assumes "0 \<le> i" "i < patternTableSize e" "i \<le> INT_MAX"
  shows "setPattern u i e =
    Inr (True, e\<lparr>patternIndex := i, index := 0,
       patternTable := (patternTable e)[nat i :=
          (patternTable e ! nat i)\<lparr>p_timeOfStroke := timeOfStroke e, p_depth := depth e,
             p_stroke := stroke e, p_sensation := sensation e\<rparr>]\<rparr>)"
proof -
  have "index_below_size u i (patternTableSize e)"
    using assms by (simp add: index_below_size_nonneg)
  then show ?thesis
    using assms(1,2)
    by (simp add: setPattern_def onSelectedPattern_valid patternTableSize_def bindE_def Let_def
        Pattern_setTimeOfStroke_def Pattern_setDepth_def Pattern_setStroke_def
        Pattern_setSensation_def)
qed

text \<open>The third part, the negative index, depends on that type. If
  \<^verbatim>\<open>patternTableSize\<close> is an \<^verbatim>\<open>int\<close>, a negative index passes the test, which has no lower
  bound, is stored as the active pattern index, and the function goes on to index the
  table with it.\<close>

lemma setPattern_negative_signed: "i < 0 \<Longrightarrow> setPattern False i e = Inl IndexOutOfBounds"
  by (simp add: setPattern_def index_below_size_def pattern_defs bindE_def Let_def)

text \<open>If \<^verbatim>\<open>patternTableSize\<close> is an \<^verbatim>\<open>unsigned int\<close>, the conversion of a negative index
  gives a value of at least \<open>2\<^sup>3\<^sup>1\<close>, which is not below the size of any table that fits
  the memory: the call returns false and changes nothing, as the claim says.\<close>

lemma unsigned_comparison_rejects_negative:
  assumes "INT_MIN \<le> i" "i < 0" "n \<le> 2147483648"
  shows "\<not> index_below_size True i n"
proof -
  have "i mod 4294967296 = (i + 4294967296) mod 4294967296" by simp
  also have "\<dots> = i + 4294967296"
    using assms by (intro mod_pos_pos_trivial) (simp_all add: INT_MIN_def)
  finally have "i mod 4294967296 = i + 4294967296" .
  then show ?thesis using assms by (simp add: index_below_size_def INT_MIN_def)
qed

lemma setPattern_negative_unsigned:
  assumes "INT_MIN \<le> i" "i < 0" "patternTableSize e \<le> 2147483648"
  shows "setPattern True i e = Inr (False, e)"
  using unsigned_comparison_rejects_negative [OF assms] by (simp add: setPattern_def)

text \<open>On the concrete machine, whose table has one pattern, \<open>setPattern (-1)\<close> runs out
  of the table under the signed reading and returns false under the unsigned one.\<close>

theorem setPattern_negative_signed_witness:
  "(- 1 :: int) < 0 \<and> setPattern False (- 1) demo_engine = Inl IndexOutOfBounds"
proof -
  have h: "(- 1 :: int) < 0" by simp
  from h setPattern_negative_signed [OF h, of demo_engine] show ?thesis by (intro conjI)
qed

theorem setPattern_negative_unsigned_witness:
  "INT_MIN \<le> - 1 \<and> (- 1 :: int) < 0 \<and> patternTableSize demo_engine \<le> 2147483648 \<and>
   setPattern True (- 1) demo_engine = Inr (False, demo_engine)"
proof -
  have h1: "INT_MIN \<le> - 1" by (simp add: INT_MIN_def)
  have h2: "(- 1 :: int) < 0" by simp
  have h3: "patternTableSize demo_engine \<le> 2147483648"
    by (simp add: patternTableSize_def demo_defs)
  from h1 h2 h3 setPattern_negative_unsigned [OF h1 h2 h3] show ?thesis by (intro conjI)
qed

subsection \<open>C4: leaving the ERROR state\<close>

text \<open>Claim C4 says that the ERROR state is terminal: once \<open>safeState\<close> has set it, no
  public operation, \<open>disable\<close> in particular, changes the state. The code's \<open>disable\<close>
  assigns DISABLED without looking at the state: from any engine, \<open>safeState\<close> followed by
  \<open>disable\<close> ends in DISABLED.\<close>

theorem disable_leaves_error_state:
  "state (safeState e) = SERVO_ERROR \<and> state (disable (safeState e)) = SERVO_DISABLED"
  by (simp add: safeState_def disable_def issue_def Let_def)

text \<open>Homing is a second way out: \<open>enableAndHome\<close> runs in any state, and a homing run
  that finds the switch ends in READY.\<close>

lemma homing_leaves_error_state:
  "state (enableAndHome 25 1 5 (safeState demo_engine)) = SERVO_ERROR \<and>
   map_sum id observe
     (homingProcedure 25 (\<lambda>pin. HIGH) [\<lambda>pin. LOW]
        (enableAndHome 25 1 5 (safeState demo_engine))) =
   Inr (True, SERVO_READY,
        issued (servo demo_engine) @
          [DisableOutputs, EnableOutputs, SetSpeedInHz 250, SetAcceleration 24000,
           Move (- 8000), ForceStopAndNewPosition (- 250), MoveTo 0])"
  by (simp add: homingProcedure_def enableAndHome_def stopMotion_def safeState_def disable_def
      issue_def observe_def num_defs demo_defs Let_def)

subsection \<open>C5: the motion profile applier\<close>

text \<open>Claim C5. For every motion parameter the applier hands the driver exactly three
  commands: the speed constrained to \<open>[1, maxStepPerSecond]\<close>, the acceleration
  constrained to \<open>[1, maxStepAcceleration]\<close> and the position constrained to
  \<open>[minStep, maxStep]\<close>; nothing else of the engine changes, and the function has no
  failure result. Whenever a pair of limits is ordered, the value issued lies between
  them and is the input clamped to that interval.\<close>

theorem applyMotionProfile_clamps:
  "applyMotionProfile m e =
     e\<lparr>servo := (servo e)\<lparr>issued := issued (servo e) @
        [SetSpeedInHz (constrain (speed m) 1 (maxStepPerSecond e)),
         SetAcceleration (constrain (acceleration m) 1 (maxStepAcceleration e)),
         MoveTo (constrain (position m) (minStep e) (maxStep e))]\<rparr>\<rparr> \<and>
   (1 \<le> maxStepPerSecond e \<longrightarrow>
      1 \<le> constrain (speed m) 1 (maxStepPerSecond e) \<and>
      constrain (speed m) 1 (maxStepPerSecond e) \<le> maxStepPerSecond e \<and>
      constrain (speed m) 1 (maxStepPerSecond e) =
        max 1 (min (maxStepPerSecond e) (speed m))) \<and>
   (1 \<le> maxStepAcceleration e \<longrightarrow>
      1 \<le> constrain (acceleration m) 1 (maxStepAcceleration e) \<and>
      constrain (acceleration m) 1 (maxStepAcceleration e) \<le> maxStepAcceleration e \<and>
      constrain (acceleration m) 1 (maxStepAcceleration e) =
        max 1 (min (maxStepAcceleration e) (acceleration m))) \<and>
   (minStep e \<le> maxStep e \<longrightarrow>
      minStep e \<le> constrain (position m) (minStep e) (maxStep e) \<and>
      constrain (position m) (minStep e) (maxStep e) \<le> maxStep e \<and>
      constrain (position m) (minStep e) (maxStep e) =
        max (minStep e) (min (maxStep e) (position m)))"
  by (simp add: applyMotionProfile_def issue_def constrain_range constrain_max_min)

text \<open>On the concrete machine a request beyond every limit (position 9000, speed 0,
  acceleration 500000) reaches the driver as position 7500, speed 1 and acceleration
  240000.\<close>

theorem applyMotionProfile_clamps_witness:
  "1 \<le> maxStepPerSecond demo_engine \<and> 1 \<le> maxStepAcceleration demo_engine \<and>
   minStep demo_engine \<le> maxStep demo_engine \<and>
   applyMotionProfile \<lparr>position = 9000, speed = 0, acceleration = 500000\<rparr> demo_engine =
     demo_engine\<lparr>servo := (servo demo_engine)\<lparr>issued := issued (servo demo_engine) @
        [SetSpeedInHz 1, SetAcceleration 240000, MoveTo 7500]\<rparr>\<rparr>"
  using applyMotionProfile_clamps
          [of "\<lparr>position = 9000, speed = 0, acceleration = 500000\<rparr>" demo_engine]
  by (simp add: demo_defs constrain_def)

subsection \<open>C6: the defaults set by \<open>begin\<close>\<close>

text \<open>Whenever \<open>begin\<close> returns, the default stroke is 0: line 28 computes
  \<^verbatim>\<open>1/3 * _maxStep\<close>, and the integer quotient \<^verbatim>\<open>1/3\<close> is 0. The other three defaults
  are as the claim states them.\<close>

lemma begin_engine_defaults:
  "begin_engine g m e = Inr e' \<Longrightarrow>
     stroke e' = 0 \<and> depth e' = maxStep e' \<and> timeOfStroke e' = 1 \<and> sensation e' = 0"
  by (auto simp: begin_engine_def issue_def bindE_def cdiv_def Let_def split: sum.splits)

text \<open>Claim C6 says that after \<open>begin\<close> the defaults are depth = \<open>maxStep\<close>, stroke =
  \<open>maxStep / 3\<close>, time of stroke = 1.0 s and sensation = 0. On the concrete machine
  \<open>begin\<close> sets \<open>maxStep = 7500\<close>, depth 7500, time of stroke 1 and sensation 0, but the
  stroke is 0 where a third of \<open>maxStep\<close> is 2500.\<close>

theorem begin_default_stroke_is_zero:
  "begin_engine demo_physics demo_motor blank_engine = Inr demo_engine \<and>
   maxStep demo_engine = 7500 \<and> depth demo_engine = 7500 \<and>
   stroke demo_engine = 0 \<and> cdiv (maxStep demo_engine) 3 = 2500 \<and>
   timeOfStroke demo_engine = 1 \<and> sensation demo_engine = 0"
  by (simp add: begin_engine_def issue_def num_defs demo_defs)

subsection \<open>C7: the homing switch\<close>

text \<open>Claim C7 says that the homing procedure detects the switch on the configured homing
  pin with the configured polarity, at the first check and in the polling loop, and then
  forces the position to \<open>-keepoutBoundary\<close> in steps, moves to zero and sets
  \<open>isHomed\<close>. The code reads the pin \<^verbatim>\<open>SERVO_ENDSTOP\<close> in both places, not the stored
  \<open>homeingPin\<close>, and the polling loop compares the reading with \<^verbatim>\<open>LOW\<close> whatever the
  stored polarity is. Three runs on the concrete machine, with \<^verbatim>\<open>SERVO_ENDSTOP = 25\<close> and
  a homing speed of 5 mm/s:
  \<^item> an active-high switch on pin 25 that is released at the start and pressed (HIGH) at
    the first poll is not detected: homing fails, the outputs are disabled;
  \<^item> the same switch, never pressed (LOW throughout), is taken as pressed at the first
    poll: the position is forced to \<open>-250\<close> and the engine is homed and READY;
  \<^item> an active-low switch configured on pin 4 that is pressed (LOW) at the first poll,
    while pin 25 reads HIGH, is not detected.\<close>

theorem homing_ignores_configured_pin_and_polarity:
  "map_sum id observe
     (homingProcedure 25 (\<lambda>pin. LOW) [\<lambda>pin. HIGH] (enableAndHome 25 0 5 demo_engine)) =
   Inr (False, SERVO_DISABLED,
        issued (servo demo_engine) @
          [EnableOutputs, SetSpeedInHz 250, SetAcceleration 24000, Move (- 8000),
           DisableOutputs]) \<and>
   map_sum id observe
     (homingProcedure 25 (\<lambda>pin. LOW) [\<lambda>pin. LOW] (enableAndHome 25 0 5 demo_engine)) =
   Inr (True, SERVO_READY,
        issued (servo demo_engine) @
          [EnableOutputs, SetSpeedInHz 250, SetAcceleration 24000, Move (- 8000),
           ForceStopAndNewPosition (- 250), MoveTo 0]) \<and>
   map_sum id observe
     (homingProcedure 25 (\<lambda>pin. HIGH) [\<lambda>pin. if pin = 4 then LOW else HIGH]
        (enableAndHome 4 1 5 demo_engine)) =
   Inr (False, SERVO_DISABLED,
        issued (servo demo_engine) @
          [EnableOutputs, SetSpeedInHz 250, SetAcceleration 24000, Move (- 8000),
           DisableOutputs])"
  by (simp add: homingProcedure_def enableAndHome_def stopMotion_def issue_def observe_def
      num_defs demo_defs Let_def)

subsection \<open>C8: what \<open>startMotion\<close> prepares for the stroking task\<close>

text \<open>Claim C8. Called in state READY (with a selected pattern that exists),
  \<open>startMotion\<close> returns true, enters RUNNING, sets the step index to \<open>-1\<close>, writes the
  engine's time of stroke, depth, stroke and sensation into the selected pattern and only
  then creates the stroking task; so the first request of the stroking loop increments
  the index to 0 and asks the selected pattern, which holds those four values, for the
  target at index 0.\<close>

theorem startMotion_resets_index_and_reinjects:
  assumes ready: "state e = SERVO_READY"
    and sel: "0 \<le> patternIndex e" "patternIndex e < patternTableSize e"
  shows "\<exists>e' p'. startMotion e = Inr (True, e') \<and>
           state e' = SERVO_RUNNING \<and> index e' = - 1 \<and> taskStrokingHandle e' \<and>
           patternIndex e' = patternIndex e \<and>
           timeOfStroke e' = timeOfStroke e \<and> depth e' = depth e \<and>
           stroke e' = stroke e \<and> sensation e' = sensation e \<and>
           selectedPattern e' = Inr p' \<and>
           p_timeOfStroke p' = timeOfStroke e \<and> p_depth p' = depth e \<and>
           p_stroke p' = stroke e \<and> p_sensation p' = sensation e \<and>
           (\<forall>nextTarget. nextPatternTarget nextTarget e' =
                           Inr (nextTarget p' 0, e'\<lparr>index := 0\<rparr>))"
proof -
  let ?e1 = "if isRunning (servo e)
             then issue [SetAcceleration (maxStepAcceleration e), ApplySpeedAcceleration,
                         StopMove] e
             else e"
  let ?p = "(patternTable e ! nat (patternIndex e))\<lparr>p_timeOfStroke := timeOfStroke e,
              p_depth := depth e, p_stroke := stroke e, p_sensation := sensation e\<rparr>"
  let ?e' = "?e1\<lparr>state := SERVO_RUNNING, index := - 1,
               patternTable := (patternTable e)[nat (patternIndex e) := ?p],
               taskStrokingHandle := True\<rparr>"
  have start: "startMotion e = Inr (True, ?e')"
    using ready sel
    by (simp add: startMotion_def onSelectedPattern_valid patternTableSize_def bindE_def Let_def
        issue_def Pattern_setTimeOfStroke_def Pattern_setDepth_def Pattern_setStroke_def
        Pattern_setSensation_def)
  have selp: "selectedPattern ?e' = Inr ?p"
    using sel by (simp add: selectedPattern_def patternTableSize_def issue_def)
  have idx: "int32 (index ?e' + 1) = Inr 0"
    by (simp add: int32_def INT_MIN_def INT_MAX_def issue_def)
  have nxt: "\<forall>nextTarget. nextPatternTarget nextTarget ?e' =
                            Inr (nextTarget ?p 0, ?e'\<lparr>index := 0\<rparr>)"
    using nextPatternTarget_Inr [OF selp idx] by blast
  show ?thesis
    apply (rule exI [of _ ?e'])
    apply (rule exI [of _ ?p])
    using start selp nxt by (simp add: issue_def)
qed

text \<open>On the ready machine, whose pattern holds stale values and whose index is 7, the
  pattern receives 2 s, 5000, 2000 and 25, and the first request is for index 0, where the
  example pattern provider answers with the depth as the position.\<close>

theorem startMotion_resets_index_and_reinjects_witness:
  "state ready_engine = SERVO_READY \<and> 0 \<le> patternIndex ready_engine \<and>
   patternIndex ready_engine < patternTableSize ready_engine \<and>
   startMotion ready_engine =
     Inr (True, ready_engine\<lparr>state := SERVO_RUNNING, index := - 1,
            patternTable := [\<lparr>p_timeOfStroke = 2, p_depth = 5000, p_stroke = 2000,
                               p_sensation = 25\<rparr>],
            taskStrokingHandle := True\<rparr>) \<and>
   nextPatternTarget demo_nextTarget
       (ready_engine\<lparr>state := SERVO_RUNNING, index := - 1,
            patternTable := [\<lparr>p_timeOfStroke = 2, p_depth = 5000, p_stroke = 2000,
                               p_sensation = 25\<rparr>],
            taskStrokingHandle := True\<rparr>) =
     Inr (\<lparr>position = 5000, speed = 1000, acceleration = 2000\<rparr>,
          ready_engine\<lparr>state := SERVO_RUNNING, index := 0,
            patternTable := [\<lparr>p_timeOfStroke = 2, p_depth = 5000, p_stroke = 2000,
                               p_sensation = 25\<rparr>],
            taskStrokingHandle := True\<rparr>)"
proof -
  let ?p = "\<lparr>p_timeOfStroke = 2, p_depth = 5000, p_stroke = 2000, p_sensation = 25\<rparr>"
  let ?s = "ready_engine\<lparr>state := SERVO_RUNNING, index := - 1, patternTable := [?p],
              taskStrokingHandle := True\<rparr>"
  have h1: "state ready_engine = SERVO_READY" by (simp add: demo_defs)
  have h2: "0 \<le> patternIndex ready_engine" by (simp add: demo_defs)
  have h3: "patternIndex ready_engine < patternTableSize ready_engine"
    by (simp add: patternTableSize_def demo_defs)
  have st: "startMotion ready_engine = Inr (True, ?s)"
    by (simp add: startMotion_def pattern_defs bindE_def demo_defs)
  from startMotion_resets_index_and_reinjects [OF h1 h2 h3]
  obtain e' p' where a: "startMotion ready_engine = Inr (True, e')"
    and b: "selectedPattern e' = Inr p'"
    and c: "\<forall>nextTarget. nextPatternTarget nextTarget e' =
                          Inr (nextTarget p' 0, e'\<lparr>index := 0\<rparr>)"
    by blast
  from a st have e': "e' = ?s" by simp
  have "selectedPattern ?s = Inr ?p"
    by (simp add: pattern_defs demo_defs)
  with b e' have p': "p' = ?p" by simp
  from c e' p' have "nextPatternTarget demo_nextTarget ?s =
      Inr (demo_nextTarget ?p 0, ?s\<lparr>index := 0\<rparr>)" by blast
  then have "nextPatternTarget demo_nextTarget ?s =
      Inr (\<lparr>position = 5000, speed = 1000, acceleration = 2000\<rparr>, ?s\<lparr>index := 0\<rparr>)"
    by (simp add: demo_nextTarget_def)
  with h1 h2 h3 st show ?thesis by simp
qed

subsection \<open>C9: \<open>moveToMax\<close> and \<open>moveToMin\<close> before homing\<close>

text \<open>Claim C9. While \<open>isHomed\<close> is false, \<open>moveToMax\<close> and \<open>moveToMin\<close> return false and
  the engine they return is the engine they were given: no command reaches the driver,
  and the state, \<open>isHomed\<close> and every motion parameter are unchanged.\<close>

theorem moveToMax_moveToMin_not_homed:
  "\<not> isHomed e \<Longrightarrow> moveToMax s e = Inr (False, e) \<and> moveToMin s e = Inr (False, e)"
  by (simp add: moveToMax_def moveToMin_def)

theorem moveToMax_moveToMin_not_homed_witness:
  "\<not> isHomed demo_engine \<and> moveToMax 10 demo_engine = Inr (False, demo_engine) \<and>
   moveToMin 10 demo_engine = Inr (False, demo_engine)"
proof -
  have h: "\<not> isHomed demo_engine" by (simp add: demo_defs)
  from h moveToMax_moveToMin_not_homed [OF h, of 10] show ?thesis by blast
qed

subsection \<open>C10: what the setters leave alone\<close>

text \<open>Each setter returns the engine it was given with two changes at most: its own
  parameter, and the copy of that parameter in the selected pattern.\<close>

lemma setSpeed_frame:
  assumes "setSpeed v e = Inr e'"
  shows "e' = e\<lparr>timeOfStroke := timeOfStroke e',
                 patternTable := (patternTable e)[nat (patternIndex e) :=
                    (patternTable e ! nat (patternIndex e))\<lparr>p_timeOfStroke := timeOfStroke e'\<rparr>]\<rparr>"
  using assms
  by (auto simp: setSpeed_def Let_def Pattern_setTimeOfStroke_def
      dest!: onSelectedPattern_Inr)

lemma setDepth_frame:
  assumes "setDepth v e = Inr e'"
  shows "e' = e\<lparr>depth := depth e',
                 patternTable := (patternTable e)[nat (patternIndex e) :=
                    (patternTable e ! nat (patternIndex e))\<lparr>p_depth := depth e'\<rparr>]\<rparr>"
  using assms
  by (auto simp: setDepth_def to_int_def bindE_def Let_def Pattern_setDepth_def
      split: if_splits dest!: onSelectedPattern_Inr)

lemma setStroke_frame:
  assumes "setStroke v e = Inr e'"
  shows "e' = e\<lparr>stroke := stroke e',
                 patternTable := (patternTable e)[nat (patternIndex e) :=
                    (patternTable e ! nat (patternIndex e))\<lparr>p_stroke := stroke e'\<rparr>]\<rparr>"
  using assms
  by (auto simp: setStroke_def to_int_def bindE_def Let_def Pattern_setStroke_def
      split: if_splits dest!: onSelectedPattern_Inr)

lemma setSensation_frame:
  assumes "setSensation v e = Inr e'"
  shows "e' = e\<lparr>sensation := sensation e',
                 patternTable := (patternTable e)[nat (patternIndex e) :=
                    (patternTable e ! nat (patternIndex e))\<lparr>p_sensation := sensation e'\<rparr>]\<rparr>"
  using assms
  by (auto simp: setSensation_def bindE_def Let_def Pattern_setSensation_def
      split: if_splits dest!: onSelectedPattern_Inr)

text \<open>Such an engine has the state, the homing flag and the pattern index it had
  before.\<close>

lemma frame_fields:
  "e' = e\<lparr>timeOfStroke := t, patternTable := pt\<rparr> \<Longrightarrow>
     state e' = state e \<and> isHomed e' = isHomed e \<and> patternIndex e' = patternIndex e"
  "e' = e\<lparr>depth := d, patternTable := pt\<rparr> \<Longrightarrow>
     state e' = state e \<and> isHomed e' = isHomed e \<and> patternIndex e' = patternIndex e"
  "e' = e\<lparr>stroke := d, patternTable := pt\<rparr> \<Longrightarrow>
     state e' = state e \<and> isHomed e' = isHomed e \<and> patternIndex e' = patternIndex e"
  "e' = e\<lparr>sensation := t, patternTable := pt\<rparr> \<Longrightarrow>
     state e' = state e \<and> isHomed e' = isHomed e \<and> patternIndex e' = patternIndex e"
  by simp_all

text \<open>When the selected pattern exists, \<open>setSpeed\<close> and \<open>setSensation\<close> return for every
  input, a speed of zero included, and \<open>setDepth\<close> and \<open>setStroke\<close> return for every input
  whose value in steps fits an \<^verbatim>\<open>int\<close>.\<close>

lemma setters_return:
  assumes "0 \<le> patternIndex e" "patternIndex e < patternTableSize e"
  shows "\<exists>e'. setSpeed v e = Inr e'"
    and "to_int (v * stepsPerMillimeter (motor e)) = Inr d \<Longrightarrow> \<exists>e'. setDepth v e = Inr e'"
    and "to_int (v * stepsPerMillimeter (motor e)) = Inr d \<Longrightarrow> \<exists>e'. setStroke v e = Inr e'"
    and "\<exists>e'. setSensation v e = Inr e'"
  using assms
  by (simp_all add: setSpeed_def setDepth_def setStroke_def setSensation_def bindE_def
      Let_def onSelectedPattern_valid patternTableSize_def)

text \<open>A speed of zero gives the longest time of stroke.\<close>

lemma setSpeed_zero:
  assumes "0 \<le> patternIndex e" "patternIndex e < patternTableSize e"
  shows "setSpeed 0 e =
    Inr (e\<lparr>timeOfStroke := 120,
           patternTable := (patternTable e)[nat (patternIndex e) :=
              (patternTable e ! nat (patternIndex e))\<lparr>p_timeOfStroke := 120\<rparr>]\<rparr>)"
  using assms
  by (simp add: setSpeed_def strokeTime_def Let_def onSelectedPattern_valid
      patternTableSize_def Pattern_setTimeOfStroke_def)

text \<open>Claim C10. For every input value, each of \<open>setSpeed\<close>, \<open>setDepth\<close>, \<open>setStroke\<close> and
  \<open>setSensation\<close> changes only its own stored parameter and the selected pattern's copy
  of that parameter. With a selected pattern that exists, \<open>setSpeed\<close> and
  \<open>setSensation\<close> return for every input (a speed of zero included), and \<open>setDepth\<close> and
  \<open>setStroke\<close> for every input whose value in steps fits an \<^verbatim>\<open>int\<close>; and the engine a
  setter returns is the engine given, with the time of stroke (depth, stroke, sensation)
  set to its new value and with the selected entry of the pattern table changed in that
  one parameter. In particular the engine state, \<open>isHomed\<close> and the active pattern index
  are unchanged.\<close>

theorem setters_change_only_their_parameter:
  "(0 \<le> patternIndex e \<and> patternIndex e < patternTableSize e \<longrightarrow>
      (\<exists>e'. setSpeed v e = Inr e') \<and> (\<exists>e'. setSensation v e = Inr e') \<and>
      (\<forall>d. to_int (v * stepsPerMillimeter (motor e)) = Inr d \<longrightarrow>
           (\<exists>e'. setDepth v e = Inr e') \<and> (\<exists>e'. setStroke v e = Inr e'))) \<and>
   (setSpeed v e = Inr e1 \<longrightarrow>
      state e1 = state e \<and> isHomed e1 = isHomed e \<and> patternIndex e1 = patternIndex e \<and>
      e1 = e\<lparr>timeOfStroke := timeOfStroke e1,
              patternTable := (patternTable e)[nat (patternIndex e) :=
                (patternTable e ! nat (patternIndex e))\<lparr>p_timeOfStroke := timeOfStroke e1\<rparr>]\<rparr>) \<and>
   (setDepth v e = Inr e2 \<longrightarrow>
      state e2 = state e \<and> isHomed e2 = isHomed e \<and> patternIndex e2 = patternIndex e \<and>
      e2 = e\<lparr>depth := depth e2,
              patternTable := (patternTable e)[nat (patternIndex e) :=
                (patternTable e ! nat (patternIndex e))\<lparr>p_depth := depth e2\<rparr>]\<rparr>) \<and>
   (setStroke v e = Inr e3 \<longrightarrow>
      state e3 = state e \<and> isHomed e3 = isHomed e \<and> patternIndex e3 = patternIndex e \<and>
      e3 = e\<lparr>stroke := stroke e3,
              patternTable := (patternTable e)[nat (patternIndex e) :=
                (patternTable e ! nat (patternIndex e))\<lparr>p_stroke := stroke e3\<rparr>]\<rparr>) \<and>
   (setSensation v e = Inr e4 \<longrightarrow>
      state e4 = state e \<and> isHomed e4 = isHomed e \<and> patternIndex e4 = patternIndex e \<and>
      e4 = e\<lparr>sensation := sensation e4,
              patternTable := (patternTable e)[nat (patternIndex e) :=
                (patternTable e ! nat (patternIndex e))\<lparr>p_sensation := sensation e4\<rparr>]\<rparr>)"
proof (intro conjI impI allI)
  assume s: "0 \<le> patternIndex e \<and> patternIndex e < patternTableSize e"
  then have s1: "0 \<le> patternIndex e" and s2: "patternIndex e < patternTableSize e"
    by simp_all
  show "\<exists>e'. setSpeed v e = Inr e'" by (rule setters_return(1) [OF s1 s2])
  show "\<exists>e'. setSensation v e = Inr e'" by (rule setters_return(4) [OF s1 s2])
next
  fix d
  assume s: "0 \<le> patternIndex e \<and> patternIndex e < patternTableSize e"
    and c: "to_int (v * stepsPerMillimeter (motor e)) = Inr d"
  from s have s1: "0 \<le> patternIndex e" and s2: "patternIndex e < patternTableSize e"
    by simp_all
  show "\<exists>e'. setDepth v e = Inr e'" by (rule setters_return(2) [OF s1 s2 c])
  show "\<exists>e'. setStroke v e = Inr e'" by (rule setters_return(3) [OF s1 s2 c])
next
  assume a: "setSpeed v e = Inr e1"
  note f = setSpeed_frame [OF a]
  show "e1 = e\<lparr>timeOfStroke := timeOfStroke e1,
              patternTable := (patternTable e)[nat (patternIndex e) :=
                (patternTable e ! nat (patternIndex e))\<lparr>p_timeOfStroke := timeOfStroke e1\<rparr>]\<rparr>"
    by (rule f)
  from frame_fields(1) [OF f]
  show "state e1 = state e" "isHomed e1 = isHomed e" "patternIndex e1 = patternIndex e"
    by simp_all
next
  assume a: "setDepth v e = Inr e2"
  note f = setDepth_frame [OF a]
  show "e2 = e\<lparr>depth := depth e2,
              patternTable := (patternTable e)[nat (patternIndex e) :=
                (patternTable e ! nat (patternIndex e))\<lparr>p_depth := depth e2\<rparr>]\<rparr>"
    by (rule f)
  from frame_fields(2) [OF f]
  show "state e2 = state e" "isHomed e2 = isHomed e" "patternIndex e2 = patternIndex e"
    by simp_all
next
  assume a: "setStroke v e = Inr e3"
  note f = setStroke_frame [OF a]
  show "e3 = e\<lparr>stroke := stroke e3,
              patternTable := (patternTable e)[nat (patternIndex e) :=
                (patternTable e ! nat (patternIndex e))\<lparr>p_stroke := stroke e3\<rparr>]\<rparr>"
    by (rule f)
  from frame_fields(3) [OF f]
  show "state e3 = state e" "isHomed e3 = isHomed e" "patternIndex e3 = patternIndex e"
    by simp_all
next
  assume a: "setSensation v e = Inr e4"
  note f = setSensation_frame [OF a]
  show "e4 = e\<lparr>sensation := sensation e4,
              patternTable := (patternTable e)[nat (patternIndex e) :=
                (patternTable e ! nat (patternIndex e))\<lparr>p_sensation := sensation e4\<rparr>]\<rparr>"
    by (rule f)
  from frame_fields(4) [OF f]
  show "state e4 = state e" "isHomed e4 = isHomed e" "patternIndex e4 = patternIndex e"
    by simp_all
qed

text \<open>On the ready machine, an input of 120 gives half a second per stroke, a depth and
  a stroke of 6000 steps and a sensation of 100, and a speed of 0 gives 120 seconds per
  stroke; state, homing flag and pattern index stay as they were.\<close>

theorem setters_change_only_their_parameter_witness:
  "0 \<le> patternIndex ready_engine \<and>
   patternIndex ready_engine < patternTableSize ready_engine \<and>
   to_int (120 * stepsPerMillimeter (motor ready_engine)) = Inr 6000 \<and>
   setSpeed 0 ready_engine =
     Inr (ready_engine\<lparr>timeOfStroke := 120,
            patternTable := [demo_pattern\<lparr>p_timeOfStroke := 120\<rparr>]\<rparr>) \<and>
   setSpeed 120 ready_engine =
     Inr (ready_engine\<lparr>timeOfStroke := 1 / 2,
            patternTable := [demo_pattern\<lparr>p_timeOfStroke := 1 / 2\<rparr>]\<rparr>) \<and>
   setDepth 120 ready_engine =
     Inr (ready_engine\<lparr>depth := 6000, patternTable := [demo_pattern\<lparr>p_depth := 6000\<rparr>]\<rparr>) \<and>
   setStroke 120 ready_engine =
     Inr (ready_engine\<lparr>stroke := 6000, patternTable := [demo_pattern\<lparr>p_stroke := 6000\<rparr>]\<rparr>) \<and>
   setSensation 120 ready_engine =
     Inr (ready_engine\<lparr>sensation := 100,
            patternTable := [demo_pattern\<lparr>p_sensation := 100\<rparr>]\<rparr>) \<and>
   state (ready_engine\<lparr>timeOfStroke := 120,
            patternTable := [demo_pattern\<lparr>p_timeOfStroke := 120\<rparr>]\<rparr>) = state ready_engine \<and>
   state (ready_engine\<lparr>timeOfStroke := 1 / 2,
            patternTable := [demo_pattern\<lparr>p_timeOfStroke := 1 / 2\<rparr>]\<rparr>) = state ready_engine \<and>
   isHomed (ready_engine\<lparr>depth := 6000, patternTable := [demo_pattern\<lparr>p_depth := 6000\<rparr>]\<rparr>) =
     isHomed ready_engine \<and>
   patternIndex (ready_engine\<lparr>stroke := 6000,
            patternTable := [demo_pattern\<lparr>p_stroke := 6000\<rparr>]\<rparr>) = patternIndex ready_engine \<and>
   state (ready_engine\<lparr>sensation := 100,
            patternTable := [demo_pattern\<lparr>p_sensation := 100\<rparr>]\<rparr>) = state ready_engine"
proof -
  let ?e0 = "ready_engine\<lparr>timeOfStroke := 120,
               patternTable := [demo_pattern\<lparr>p_timeOfStroke := 120\<rparr>]\<rparr>"
  let ?e1 = "ready_engine\<lparr>timeOfStroke := 1 / 2,
               patternTable := [demo_pattern\<lparr>p_timeOfStroke := 1 / 2\<rparr>]\<rparr>"
  let ?e2 = "ready_engine\<lparr>depth := 6000, patternTable := [demo_pattern\<lparr>p_depth := 6000\<rparr>]\<rparr>"
  let ?e3 = "ready_engine\<lparr>stroke := 6000, patternTable := [demo_pattern\<lparr>p_stroke := 6000\<rparr>]\<rparr>"
  let ?e4 = "ready_engine\<lparr>sensation := 100,
               patternTable := [demo_pattern\<lparr>p_sensation := 100\<rparr>]\<rparr>"
  have s1: "0 \<le> patternIndex ready_engine" by (simp add: demo_defs)
  have s2: "patternIndex ready_engine < patternTableSize ready_engine"
    by (simp add: patternTableSize_def demo_defs)
  have s3: "to_int (120 * stepsPerMillimeter (motor ready_engine)) = Inr 6000"
    by (simp add: num_defs demo_defs)
  have h0: "setSpeed 0 ready_engine = Inr ?e0"
    by (simp add: setSpeed_def pattern_defs num_defs demo_defs)
  have h1: "setSpeed 120 ready_engine = Inr ?e1"
    by (simp add: setSpeed_def pattern_defs num_defs demo_defs)
  have h2: "setDepth 120 ready_engine = Inr ?e2"
    by (simp add: setDepth_def pattern_defs num_defs demo_defs)
  have h3: "setStroke 120 ready_engine = Inr ?e3"
    by (simp add: setStroke_def pattern_defs num_defs demo_defs)
  have h4: "setSensation 120 ready_engine = Inr ?e4"
    by (simp add: setSensation_def pattern_defs num_defs demo_defs)
  note z = setters_change_only_their_parameter [of ready_engine 0 ?e0 ?e2 ?e3 ?e4]
  note c = setters_change_only_their_parameter [of ready_engine 120 ?e1 ?e2 ?e3 ?e4]
  have a0: "state ?e0 = state ready_engine"
    using z [THEN conjunct2, THEN conjunct1, rule_format, OF h0] by (rule conjunct1)
  have a1: "state ?e1 = state ready_engine"
    using c [THEN conjunct2, THEN conjunct1, rule_format, OF h1] by (rule conjunct1)
  have a2: "isHomed ?e2 = isHomed ready_engine"
    using c [THEN conjunct2, THEN conjunct2, THEN conjunct1, rule_format, OF h2]
    by (elim conjE)
  have a3: "patternIndex ?e3 = patternIndex ready_engine"
    using c [THEN conjunct2, THEN conjunct2, THEN conjunct2, THEN conjunct1, rule_format, OF h3]
    by (elim conjE)
  have a4: "state ?e4 = state ready_engine"
    using c [THEN conjunct2, THEN conjunct2, THEN conjunct2, THEN conjunct2, rule_format, OF h4]
    by (rule conjunct1)
  from s1 s2 s3 h0 h1 h2 h3 h4 a0 a1 a2 a3 a4 show ?thesis by (intro conjI)
qed

section \<open>Further properties of the operations\<close>

text \<open>\<open>disable\<close> always ends in state DISABLED with \<open>isHomed\<close> false, no homing task
  handle, and one \<^verbatim>\<open>disableOutputs\<close> sent to the driver.\<close>

theorem disable_effect:
  "state (disable e) = SERVO_DISABLED \<and> isHomed (disable e) = False \<and>
   taskHomingHandle (disable e) = False \<and>
   issued (servo (disable e)) = issued (servo e) @ [DisableOutputs]"
  by (simp add: disable_def issue_def Let_def)

text \<open>\<open>startMotion\<close> in any state but READY returns false and changes nothing.\<close>

theorem startMotion_requires_ready:
  "state e \<noteq> SERVO_READY \<Longrightarrow> startMotion e = Inr (False, e)"
  by (simp add: startMotion_def)

theorem startMotion_requires_ready_witness:
  "state demo_engine \<noteq> SERVO_READY \<and> startMotion demo_engine = Inr (False, demo_engine)"
proof -
  have h: "state demo_engine \<noteq> SERVO_READY" by (simp add: demo_defs)
  from h startMotion_requires_ready [OF h] show ?thesis by blast
qed

text \<open>\<open>stopMotion\<close> does nothing unless the state is RUNNING; from RUNNING it stops the
  move at the maximum acceleration and enters READY.\<close>

theorem stopMotion_effect:
  "(state e \<noteq> SERVO_RUNNING \<longrightarrow> stopMotion e = e) \<and>
   (state e = SERVO_RUNNING \<longrightarrow>
      state (stopMotion e) = SERVO_READY \<and>
      issued (servo (stopMotion e)) =
        issued (servo e) @
          [SetAcceleration (maxStepAcceleration e), ApplySpeedAcceleration, StopMove])"
  by (simp add: stopMotion_def issue_def)

theorem stopMotion_effect_witness:
  "state demo_engine \<noteq> SERVO_RUNNING \<and> stopMotion demo_engine = demo_engine \<and>
   state (stroking_engine 100 1000) = SERVO_RUNNING \<and>
   state (stopMotion (stroking_engine 100 1000)) = SERVO_READY \<and>
   issued (servo (stopMotion (stroking_engine 100 1000))) =
     [SetAcceleration 240000, ApplySpeedAcceleration, StopMove]"
proof -
  have h1: "state demo_engine \<noteq> SERVO_RUNNING" by (simp add: demo_defs)
  have h2: "state (stroking_engine 100 1000) = SERVO_RUNNING" by (simp add: demo_defs)
  have v: "issued (servo (stroking_engine 100 1000)) = []"
     "maxStepAcceleration (stroking_engine 100 1000) = 240000" by (simp_all add: demo_defs)
  from stopMotion_effect [of demo_engine] h1 have a: "stopMotion demo_engine = demo_engine"
    by blast
  from stopMotion_effect [of "stroking_engine 100 1000"] h2 v
  have b: "state (stopMotion (stroking_engine 100 1000)) = SERVO_READY"
    "issued (servo (stopMotion (stroking_engine 100 1000))) =
       [SetAcceleration 240000, ApplySpeedAcceleration, StopMove]"
    by simp_all
  from h1 h2 a b show ?thesis by blast
qed

text \<open>\<open>thisIsHome\<close> does nothing in state ERROR.\<close>

theorem thisIsHome_in_error: "state e = SERVO_ERROR \<Longrightarrow> thisIsHome e = Inr e"
  by (simp add: thisIsHome_def)

theorem thisIsHome_in_error_witness:
  "state (safeState demo_engine) = SERVO_ERROR \<and>
   thisIsHome (safeState demo_engine) = Inr (safeState demo_engine)"
proof -
  have h: "state (safeState demo_engine) = SERVO_ERROR" by (simp add: safeState_def)
  from h thisIsHome_in_error [OF h] show ?thesis by blast
qed

text \<open>The two cases of \<open>setPattern\<close> that do not depend on the type of
  \<^verbatim>\<open>patternTableSize\<close>, on the concrete machine.\<close>

theorem setPattern_too_large_witness:
  "patternTableSize demo_engine \<le> 1 \<and> (1::int) \<le> INT_MAX \<and>
   setPattern False 1 demo_engine = Inr (False, demo_engine) \<and>
   setPattern True 1 demo_engine = Inr (False, demo_engine)"
proof -
  have h1: "patternTableSize demo_engine \<le> 1" by (simp add: patternTableSize_def demo_defs)
  have h2: "(1::int) \<le> INT_MAX" by (simp add: INT_MAX_def)
  from h1 h2 setPattern_too_large [OF h1 h2, of False] setPattern_too_large [OF h1 h2, of True]
  show ?thesis by (intro conjI)
qed

theorem setPattern_in_range_witness:
  "(0::int) \<le> 0 \<and> 0 < patternTableSize ready_engine \<and> (0::int) \<le> INT_MAX \<and>
   setPattern True 0 ready_engine =
     Inr (True, ready_engine\<lparr>index := 0,
            patternTable := [\<lparr>p_timeOfStroke = 2, p_depth = 5000, p_stroke = 2000,
                               p_sensation = 25\<rparr>]\<rparr>)"
proof -
  have h1: "(0::int) \<le> 0" by simp
  have h2: "0 < patternTableSize ready_engine" by (simp add: patternTableSize_def demo_defs)
  have h3: "(0::int) \<le> INT_MAX" by (simp add: INT_MAX_def)
  from setPattern_in_range [OF h1 h2 h3, of True]
  have "setPattern True 0 ready_engine =
     Inr (True, ready_engine\<lparr>index := 0,
            patternTable := [\<lparr>p_timeOfStroke = 2, p_depth = 5000, p_stroke = 2000,
                               p_sensation = 25\<rparr>]\<rparr>)"
    by (simp add: demo_defs)
  with h1 h2 h3 show ?thesis by (intro conjI)
qed

text \<open>Whenever a setter returns, the value it stores is within its limits: the time of
  stroke between 0.01 s and 120 s, the sensation between \<open>-100\<close> and 100, and depth and
  stroke between \<open>minStep\<close> and \<open>maxStep\<close> when these two are ordered.\<close>

lemma setSpeed_clamp: "setSpeed v e = Inr e1 \<Longrightarrow> 1 / 100 \<le> timeOfStroke e1 \<and> timeOfStroke e1 \<le> 120"
  by (auto simp: setSpeed_def strokeTime_def Let_def constrain_def
      split: if_splits dest!: onSelectedPattern_Inr)

lemma setDepth_clamp: "setDepth v e = Inr e2 \<Longrightarrow> minStep e \<le> maxStep e \<Longrightarrow>
      minStep e \<le> depth e2 \<and> depth e2 \<le> maxStep e"
  by (auto simp: setDepth_def to_int_def bindE_def Let_def constrain_def
      split: if_splits dest!: onSelectedPattern_Inr)

lemma setStroke_clamp: "setStroke v e = Inr e3 \<Longrightarrow> minStep e \<le> maxStep e \<Longrightarrow>
      minStep e \<le> stroke e3 \<and> stroke e3 \<le> maxStep e"
  by (auto simp: setStroke_def to_int_def bindE_def Let_def constrain_def
      split: if_splits dest!: onSelectedPattern_Inr)

lemma setSensation_clamp: "setSensation v e = Inr e4 \<Longrightarrow> - 100 \<le> sensation e4 \<and> sensation e4 \<le> 100"
  by (auto simp: setSensation_def bindE_def Let_def constrain_def
      split: if_splits dest!: onSelectedPattern_Inr)


theorem setters_clamp:
  "(setSpeed v e = Inr e1 \<longrightarrow> 1 / 100 \<le> timeOfStroke e1 \<and> timeOfStroke e1 \<le> 120) \<and>
   (setDepth v e = Inr e2 \<and> minStep e \<le> maxStep e \<longrightarrow>
      minStep e \<le> depth e2 \<and> depth e2 \<le> maxStep e) \<and>
   (setStroke v e = Inr e3 \<and> minStep e \<le> maxStep e \<longrightarrow>
      minStep e \<le> stroke e3 \<and> stroke e3 \<le> maxStep e) \<and>
   (setSensation v e = Inr e4 \<longrightarrow> - 100 \<le> sensation e4 \<and> sensation e4 \<le> 100)"
  using setSpeed_clamp [of v e e1] setDepth_clamp [of v e e2] setStroke_clamp [of v e e3]
    setSensation_clamp [of v e e4]
  by blast

theorem setters_clamp_witness:
  "setSpeed 12000 ready_engine =
     Inr (ready_engine\<lparr>timeOfStroke := 1 / 100,
            patternTable := [demo_pattern\<lparr>p_timeOfStroke := 1 / 100\<rparr>]\<rparr>) \<and>
   setDepth 12000 ready_engine =
     Inr (ready_engine\<lparr>depth := 7500, patternTable := [demo_pattern\<lparr>p_depth := 7500\<rparr>]\<rparr>) \<and>
   setStroke 12000 ready_engine =
     Inr (ready_engine\<lparr>stroke := 7500, patternTable := [demo_pattern\<lparr>p_stroke := 7500\<rparr>]\<rparr>) \<and>
   setSensation 12000 ready_engine =
     Inr (ready_engine\<lparr>sensation := 100,
            patternTable := [demo_pattern\<lparr>p_sensation := 100\<rparr>]\<rparr>) \<and>
   minStep ready_engine \<le> maxStep ready_engine \<and>
   timeOfStroke (ready_engine\<lparr>timeOfStroke := 1 / 100,
            patternTable := [demo_pattern\<lparr>p_timeOfStroke := 1 / 100\<rparr>]\<rparr>) \<le> 120 \<and>
   depth (ready_engine\<lparr>depth := 7500, patternTable := [demo_pattern\<lparr>p_depth := 7500\<rparr>]\<rparr>)
     \<le> maxStep ready_engine"
proof -
  let ?e1 = "ready_engine\<lparr>timeOfStroke := 1 / 100,
               patternTable := [demo_pattern\<lparr>p_timeOfStroke := 1 / 100\<rparr>]\<rparr>"
  let ?e2 = "ready_engine\<lparr>depth := 7500, patternTable := [demo_pattern\<lparr>p_depth := 7500\<rparr>]\<rparr>"
  let ?e3 = "ready_engine\<lparr>stroke := 7500, patternTable := [demo_pattern\<lparr>p_stroke := 7500\<rparr>]\<rparr>"
  let ?e4 = "ready_engine\<lparr>sensation := 100,
               patternTable := [demo_pattern\<lparr>p_sensation := 100\<rparr>]\<rparr>"
  have h1: "setSpeed 12000 ready_engine = Inr ?e1"
    by (simp add: setSpeed_def pattern_defs num_defs demo_defs)
  have h2: "setDepth 12000 ready_engine = Inr ?e2"
    by (simp add: setDepth_def pattern_defs num_defs demo_defs)
  have h3: "setStroke 12000 ready_engine = Inr ?e3"
    by (simp add: setStroke_def pattern_defs num_defs demo_defs)
  have h4: "setSensation 12000 ready_engine = Inr ?e4"
    by (simp add: setSensation_def pattern_defs num_defs demo_defs)
  have h5: "minStep ready_engine \<le> maxStep ready_engine" by (simp add: demo_defs)
  note c = setters_clamp [of 12000 ready_engine ?e1 ?e2 ?e3 ?e4]
  have a: "timeOfStroke ?e1 \<le> 120"
    using c [THEN conjunct1, rule_format, OF h1] by (rule conjunct2)
  have b: "depth ?e2 \<le> maxStep ready_engine"
    using c [THEN conjunct2, THEN conjunct1, rule_format, OF conjI [OF h2 h5]]
    by (rule conjunct2)
  from h1 h2 h3 h4 h5 a b show ?thesis by (intro conjI)
qed

text \<open>The defaults of \<open>begin\<close> on the concrete machine.\<close>

theorem begin_engine_defaults_witness:
  "begin_engine demo_physics demo_motor blank_engine = Inr demo_engine \<and>
   stroke demo_engine = 0 \<and> depth demo_engine = maxStep demo_engine \<and>
   timeOfStroke demo_engine = 1 \<and> sensation demo_engine = 0"
proof -
  have h: "begin_engine demo_physics demo_motor blank_engine = Inr demo_engine"
    by (rule begin_demo_engine)
  from h begin_engine_defaults [OF h] show ?thesis by blast
qed

end
